theory Spec2Isabelle
  imports Complex_Main "HOL-Library.AList"
begin

section \<open>JSON values as the programs see them\<close>

text \<open>
  The validator and the migrators of the NALT protocol work on parsed JSON: a generic tree,
  not a typed structure. An object is an association list in enumeration order, which is
  insertion order for the keys these programs use (\<open>AList.update\<close> overwrites a key in
  place or appends it, as a JavaScript property assignment and a Python item assignment
  do; \<open>AList.delete\<close> is \<open>delete obj.k\<close> and \<open>dict.pop\<close>). Numbers are the exact
  rationals that the decimal literals of the document denote.
\<close>

datatype json =
    JNull
  | JBool bool
  | JNum rat
  | JStr string
  | JArr "json list"
  | JObj "(string \<times> json) list"

type_synonym obj = "(string \<times> json) list"

datatype error = TypeError | AttributeError

text \<open>JavaScript truthiness of a value that came out of \<open>JSON.parse\<close>.\<close>

fun truthy :: "json \<Rightarrow> bool" where
  "truthy JNull = False"
| "truthy (JBool b) = b"
| "truthy (JNum r) = (r \<noteq> 0)"
| "truthy (JStr s) = (s \<noteq> [])"
| "truthy (JArr xs) = True"
| "truthy (JObj kvs) = True"

text \<open>A property that is absent reads as \<open>undefined\<close>, which is falsy.\<close>

definition truthy_opt :: "json option \<Rightarrow> bool" where
  "truthy_opt v = (case v of None \<Rightarrow> False | Some j \<Rightarrow> truthy j)"

definition digit_char :: "nat \<Rightarrow> char" where
  "digit_char d = ''0123456789'' ! (d mod 10)"

fun show_nat :: "nat \<Rightarrow> string" where
  "show_nat n = (if n < 10 then [digit_char n] else show_nat (n div 10) @ [digit_char n])"

declare show_nat.simps [simp del]

text \<open>
  Object spread \<open>{...v}\<close>: the own enumerable properties of \<open>v\<close>. An object gives its
  fields, an array and a string give their indexed elements, every other value gives none.
\<close>

fun spread :: "json \<Rightarrow> obj" where
  "spread (JObj kvs) = kvs"
| "spread (JArr xs) = zip (map show_nat [0..<length xs]) xs"
| "spread (JStr s) = zip (map show_nat [0..<length s]) (map (\<lambda>c. JStr [c]) s)"
| "spread v = []"

text \<open>
  Reading a named property \<open>v.k\<close>, for the fixed names the programs read (none of them is
  \<open>length\<close>, an index or a name on a built-in prototype): reading from \<open>null\<close> throws,
  an object gives the field or \<open>undefined\<close>, every other value gives \<open>undefined\<close>.
\<close>

fun get_prop :: "json \<Rightarrow> string \<Rightarrow> error + json option" where
  "get_prop JNull k = Inl TypeError"
| "get_prop (JObj kvs) k = Inr (map_of kvs k)"
| "get_prop v k = Inr None"

text \<open>A \<open>map\<close> whose callback may throw: the first exception ends it.\<close>

fun map_err :: "('a \<Rightarrow> error + 'b) \<Rightarrow> 'a list \<Rightarrow> error + 'b list" where
  "map_err f [] = Inr []"
| "map_err f (x # xs) =
     (case f x of
        Inl e \<Rightarrow> Inl e
      | Inr y \<Rightarrow> (case map_err f xs of Inl e \<Rightarrow> Inl e | Inr ys \<Rightarrow> Inr (y # ys)))"


section \<open>The version migrator (class \<open>NALTMigrator\<close>)\<close>

subsection \<open>\<open>extractVersion\<close>: the first match of \<open>/(\d+\.\d+\.\d+)/\<close>\<close>

definition is_digit :: "char \<Rightarrow> bool" where
  "is_digit c \<longleftrightarrow> c \<in> set ''0123456789''"

text \<open>
  A match of the pattern that starts at the head of the string. The three groups of digits
  are greedy and a shorter group could only be followed by a digit, never by the dot the
  pattern needs, so taking the longest run of digits each time is the match of the regex.
\<close>

definition match_here :: "string \<Rightarrow> string option" where
  "match_here s =
     (let a = takeWhile is_digit s in
      if a = [] then None
      else case dropWhile is_digit s of
        c1 # r1 \<Rightarrow>
          if c1 \<noteq> CHR ''.'' then None
          else (let b = takeWhile is_digit r1 in
                if b = [] then None
                else case dropWhile is_digit r1 of
                  c2 # r2 \<Rightarrow>
                    if c2 \<noteq> CHR ''.'' then None
                    else (let c = takeWhile is_digit r2 in
                          if c = [] then None else Some (a @ ''.'' @ b @ ''.'' @ c))
                | [] \<Rightarrow> None)
      | [] \<Rightarrow> None)"

fun first_match :: "string \<Rightarrow> string option" where
  "first_match [] = None"
| "first_match (c # cs) =
     (case match_here (c # cs) of Some v \<Rightarrow> Some v | None \<Rightarrow> first_match cs)"

text \<open>
  \<open>specVersion.match(...)\<close> exists on strings only: \<open>undefined\<close> and every JSON value
  that is not a string throw a TypeError. No match gives \<open>null\<close>, here \<open>None\<close>.
\<close>

fun extractVersion :: "json option \<Rightarrow> error + string option" where
  "extractVersion (Some (JStr s)) = Inr (first_match s)"
| "extractVersion v = Inl TypeError"

subsection \<open>\<open>getMigrationPath\<close>\<close>

definition versions :: "string list" where
  "versions = [''1.0.0'', ''1.1.0'', ''1.1.1'', ''1.2.0'']"

fun index_of :: "'a list \<Rightarrow> 'a \<Rightarrow> nat option" where
  "index_of [] x = None"
| "index_of (y # ys) x = (if y = x then Some 0 else map_option Suc (index_of ys x))"

text \<open>\<open>from\<close> is what \<open>extractVersion\<close> returned, so it may be \<open>null\<close>.\<close>

definition getMigrationPath :: "string option \<Rightarrow> string \<Rightarrow> string list" where
  "getMigrationPath from to =
     (case (case from of None \<Rightarrow> None | Some f \<Rightarrow> index_of versions f) of
        None \<Rightarrow> []
      | Some fromIndex \<Rightarrow>
          (case index_of versions to of
             None \<Rightarrow> []
           | Some toIndex \<Rightarrow>
               if fromIndex \<ge> toIndex then []
               else drop (fromIndex + 1) (take (toIndex + 1) versions)))"

subsection \<open>The step from 1.1.0 to 1.1.1\<close>

text \<open>
  \<open>migrateFrom_1_1_0_to_1_1_1\<close>. Destructuring \<open>null\<close> throws. A truthy \<open>entries\<close> that
  is not an array has no \<open>map\<close>, and reading \<open>created_at\<close> from a \<open>null\<close> entry throws.
\<close>

definition add_created_at :: "json \<Rightarrow> json \<Rightarrow> error + json" where
  "add_created_at timestamp entry =
     (case get_prop entry ''created_at'' of
        Inl e \<Rightarrow> Inl e
      | Inr c \<Rightarrow>
          if \<not> truthy_opt c
          then Inr (JObj (AList.update ''created_at'' timestamp (spread entry)))
          else Inr entry)"

definition migrateFrom_1_1_0_to_1_1_1 :: "json \<Rightarrow> error + json" where
  "migrateFrom_1_1_0_to_1_1_1 doc =
     (if doc = JNull then Inl TypeError
      else
        let timestamp = map_of (spread doc) ''timestamp'';
            documentWithoutTimestamp =
              AList.update ''spec_version'' (JStr ''nalt-protocol/1.1.1'')
                (AList.delete ''timestamp'' (spread doc))
        in case timestamp of
             None \<Rightarrow> Inr (JObj documentWithoutTimestamp)
           | Some ts \<Rightarrow>
               if truthy ts \<and> truthy_opt (map_of documentWithoutTimestamp ''entries'')
               then (case map_of documentWithoutTimestamp ''entries'' of
                       Some (JArr es) \<Rightarrow>
                         (case map_err (add_created_at ts) es of
                            Inl e \<Rightarrow> Inl e
                          | Inr es' \<Rightarrow>
                              Inr (JObj (AList.update ''entries'' (JArr es')
                                     documentWithoutTimestamp)))
                     | _ \<Rightarrow> Inl TypeError)
               else Inr (JObj documentWithoutTimestamp))"

subsection \<open>The step from 1.1.1 to 1.2.0\<close>

definition fieldMappings :: "(string \<times> string) list" where
  "fieldMappings =
     [(''summary'', ''x_summary''),
      (''moods'', ''x_moods''),
      (''tags'', ''x_tags''),
      (''entities'', ''x_entities''),
      (''end_date'', ''x_end_date''),
      (''created_at'', ''x_created_at'')]"

text \<open>
  One round of the \<open>forEach\<close> over the mappings: a field that is not \<open>undefined\<close> is
  assigned to the new name and then deleted under the old one.
\<close>

definition move_field :: "string \<times> string \<Rightarrow> obj \<Rightarrow> obj" where
  "move_field m newEntry =
     (case map_of newEntry (fst m) of
        None \<Rightarrow> newEntry
      | Some v \<Rightarrow> AList.delete (fst m) (AList.update (snd m) v newEntry))"

definition migrateEntry_1_1_1 :: "json \<Rightarrow> json" where
  "migrateEntry_1_1_1 entry = JObj (fold move_field fieldMappings (spread entry))"

text \<open>
  The stamp \<open>x_migration\<close>; \<open>now\<close> is what \<open>new Date().toISOString()\<close> returns at the
  call.
\<close>

definition x_migration_stamp :: "string \<Rightarrow> string \<Rightarrow> string \<Rightarrow> json" where
  "x_migration_stamp from_version to_version now =
     JObj [(''from_version'', JStr from_version),
           (''to_version'', JStr to_version),
           (''migrated_at'', JStr now)]"

text \<open>
  \<open>migrateFrom_1_1_1\<close>. The signature moves only when it is truthy. \<open>meta?.x\<close> is
  \<open>undefined\<close> unless \<open>meta\<close> is an object that has the field; the \<open>delete\<close> acts on the
  \<open>meta\<close> object itself, which the shallow copy shares with the caller's document, so the
  result's \<open>meta\<close> (and the caller's) loses the field. \<open>entries\<close> must be an array.
\<close>

definition move_signature :: "obj \<Rightarrow> obj" where
  "move_signature migrated =
     (case map_of migrated ''signature'' of
        None \<Rightarrow> migrated
      | Some s \<Rightarrow>
          if truthy s
          then AList.delete ''signature'' (AList.update ''x_signature'' s migrated)
          else migrated)"

definition move_utc_offset :: "obj \<Rightarrow> obj" where
  "move_utc_offset migrated =
     (case map_of migrated ''meta'' of
        Some (JObj meta) \<Rightarrow>
          (case map_of meta ''x_utc_offset_minutes'' of
             None \<Rightarrow> migrated
           | Some u \<Rightarrow>
               AList.update ''meta'' (JObj (AList.delete ''x_utc_offset_minutes'' meta))
                 (AList.update ''x_utc_offset_minutes'' u migrated))
      | _ \<Rightarrow> migrated)"

definition migrateFrom_1_1_1 :: "string \<Rightarrow> json \<Rightarrow> error + json" where
  "migrateFrom_1_1_1 now doc =
     (let migrated =
            move_utc_offset (move_signature
              (AList.update ''spec_version'' (JStr ''nalt-protocol/1.2.0'') (spread doc)))
      in case map_of migrated ''entries'' of
           Some (JArr es) \<Rightarrow>
             Inr (JObj (AList.update ''x_migration'' (x_migration_stamp ''1.1.1'' ''1.2.0'' now)
                    (AList.update ''entries'' (JArr (map migrateEntry_1_1_1 es)) migrated)))
         | _ \<Rightarrow> Inl TypeError)"

definition migrateFrom_1_1_0 :: "string \<Rightarrow> json \<Rightarrow> error + json" where
  "migrateFrom_1_1_0 now doc =
     (case migrateFrom_1_1_0_to_1_1_1 doc of
        Inl e \<Rightarrow> Inl e
      | Inr v1_1_1 \<Rightarrow> migrateFrom_1_1_1 now v1_1_1)"

subsection \<open>\<open>migrate\<close>\<close>

text \<open>
  The table \<open>this.migrations\<close>, keyed by version. \<open>migrateFrom_1_0_0\<close> draws from
  \<open>Math.random\<close> and rounds floating-point products; it is kept abstract, as the argument
  \<open>from_1_0_0\<close>. The entry for \<open>1.2.0\<close> is \<open>null\<close>, which the loop skips like a
  missing one.
\<close>

type_synonym migrator = "json \<Rightarrow> error + json"

definition migrations :: "migrator \<Rightarrow> string \<Rightarrow> string \<Rightarrow> migrator option" where
  "migrations from_1_0_0 now =
     map_of [(''1.0.0'', from_1_0_0),
             (''1.1.0'', migrateFrom_1_1_0 now),
             (''1.1.1'', migrateFrom_1_1_1 now)]"

fun run_path :: "(string \<Rightarrow> migrator option) \<Rightarrow> string list \<Rightarrow> json \<Rightarrow> error + json" where
  "run_path table [] migratedDoc = Inr migratedDoc"
| "run_path table (version # rest) migratedDoc =
     (case table version of
        None \<Rightarrow> run_path table rest migratedDoc
      | Some migrator \<Rightarrow>
          (case migrator migratedDoc of
             Inl e \<Rightarrow> Inl e
           | Inr d \<Rightarrow> run_path table rest d))"

record migration_result =
  document :: json
  migrated :: bool

text \<open>
  The body of \<open>migrate\<close>, with the constant \<open>targetVersion\<close> as an argument, so that
  the same body can be asked for any target; \<open>migrate\<close> itself fixes it to \<open>1.1.1\<close> as
  the source does.
\<close>

definition migrate_to ::
  "migrator \<Rightarrow> string \<Rightarrow> string \<Rightarrow> json \<Rightarrow> error + migration_result" where
  "migrate_to from_1_0_0 now targetVersion doc =
     (case get_prop doc ''spec_version'' of
        Inl e \<Rightarrow> Inl e
      | Inr sv \<Rightarrow>
          (case extractVersion sv of
             Inl e \<Rightarrow> Inl e
           | Inr currentVersion \<Rightarrow>
               if currentVersion = Some targetVersion
               then Inr \<lparr>document = doc, migrated = False\<rparr>
               else (case run_path (migrations from_1_0_0 now)
                            (getMigrationPath currentVersion targetVersion)
                            (JObj (spread doc)) of
                       Inl e \<Rightarrow> Inl e
                     | Inr migratedDoc \<Rightarrow>
                         Inr \<lparr>document = migratedDoc, migrated = True\<rparr>)))"

definition migrate :: "migrator \<Rightarrow> string \<Rightarrow> json \<Rightarrow> error + migration_result" where
  "migrate from_1_0_0 now doc = migrate_to from_1_0_0 now ''1.1.1'' doc"


section \<open>The migration tool from 1.1.1 to 1.2.0 (\<open>migrate_document\<close>, Python)\<close>

fun is_substring :: "string \<Rightarrow> string \<Rightarrow> bool" where
  "is_substring p [] = (p = [])"
| "is_substring p (c # cs) = (take (length p) (c # cs) = p \<or> is_substring p cs)"

definition field_mappings :: "(string \<times> string) list" where
  "field_mappings =
     [(''summary'', ''x_summary''),
      (''moods'', ''x_moods''),
      (''tags'', ''x_tags''),
      (''entities'', ''x_entities''),
      (''end_date'', ''x_end_date''),
      (''created_at'', ''x_created_at'')]"

text \<open>\<open>new_entry[new_field] = new_entry.pop(old_field)\<close>, when the old field is there.\<close>

definition move_field_py :: "string \<times> string \<Rightarrow> obj \<Rightarrow> obj" where
  "move_field_py m new_entry =
     (case map_of new_entry (fst m) of
        None \<Rightarrow> new_entry
      | Some v \<Rightarrow> AList.update (snd m) v (AList.delete (fst m) new_entry))"

text \<open>
  \<open>migrate_entry\<close>. A dict is copied and its fields moved. A list has \<open>copy\<close> too, and
  \<open>in\<close> tests membership; \<open>pop\<close> with a string then raises TypeError. Strings, numbers,
  booleans and \<open>None\<close> have no \<open>copy\<close>.
\<close>

fun migrate_entry :: "json \<Rightarrow> error + json" where
  "migrate_entry (JObj entry) = Inr (JObj (fold move_field_py field_mappings entry))"
| "migrate_entry (JArr xs) =
     (if list_ex (\<lambda>m. JStr (fst m) \<in> set xs) field_mappings then Inl TypeError
      else Inr (JArr xs))"
| "migrate_entry v = Inl AttributeError"

definition py_move_signature :: "obj \<Rightarrow> obj" where
  "py_move_signature new_doc =
     (case map_of new_doc ''signature'' of
        None \<Rightarrow> new_doc
      | Some s \<Rightarrow> AList.update ''x_signature'' s (AList.delete ''signature'' new_doc))"

text \<open>
  \<open>'x_utc_offset_minutes' in new_doc.get('meta', {})\<close>: a key test on a dict, a substring
  test on a string, a membership test on a list, a TypeError on anything else. The
  \<open>pop\<close> that follows a positive test exists with this meaning on a dict only, and it
  removes the field from the \<open>meta\<close> dict that the copy shares with \<open>old_doc\<close>.
\<close>

definition py_move_utc_offset :: "obj \<Rightarrow> error + obj" where
  "py_move_utc_offset new_doc =
     (case map_of new_doc ''meta'' of
        None \<Rightarrow> Inr new_doc
      | Some (JObj meta) \<Rightarrow>
          (case map_of meta ''x_utc_offset_minutes'' of
             None \<Rightarrow> Inr new_doc
           | Some u \<Rightarrow>
               Inr (AList.update ''x_utc_offset_minutes'' u
                     (AList.update ''meta''
                        (JObj (AList.delete ''x_utc_offset_minutes'' meta)) new_doc)))
      | Some (JStr s) \<Rightarrow>
          if is_substring ''x_utc_offset_minutes'' s then Inl AttributeError else Inr new_doc
      | Some (JArr xs) \<Rightarrow>
          if JStr ''x_utc_offset_minutes'' \<in> set xs then Inl TypeError else Inr new_doc
      | Some v \<Rightarrow> Inl TypeError)"

text \<open>
  \<open>for entry in new_doc.get('entries', [])\<close>: a list gives its elements, a dict its keys,
  a string its characters; nothing else can be iterated.
\<close>

definition py_iterate :: "json option \<Rightarrow> error + json list" where
  "py_iterate entries =
     (case entries of
        None \<Rightarrow> Inr []
      | Some (JArr es) \<Rightarrow> Inr es
      | Some (JObj kvs) \<Rightarrow> Inr (map (\<lambda>kv. JStr (fst kv)) kvs)
      | Some (JStr s) \<Rightarrow> Inr (map (\<lambda>c. JStr [c]) s)
      | Some v \<Rightarrow> Inl TypeError)"

text \<open>
  \<open>migrate_document\<close>; \<open>now\<close> is \<open>datetime.utcnow().isoformat()\<close> at the call. A list
  passes \<open>copy\<close> and fails at \<open>pop\<close> or at \<open>get\<close>; other values have no \<open>copy\<close>.
\<close>

definition migrate_document :: "string \<Rightarrow> json \<Rightarrow> error + json" where
  "migrate_document now old_doc =
     (case old_doc of
        JObj d \<Rightarrow>
          (case py_move_utc_offset (py_move_signature d) of
             Inl e \<Rightarrow> Inl e
           | Inr new_doc \<Rightarrow>
               (case py_iterate (map_of new_doc ''entries'') of
                  Inl e \<Rightarrow> Inl e
                | Inr entries \<Rightarrow>
                    (case map_err migrate_entry entries of
                       Inl e \<Rightarrow> Inl e
                     | Inr es' \<Rightarrow>
                         Inr (JObj
                           (AList.update ''x_migrated_at'' (JStr (now @ ''Z''))
                             (AList.update ''spec_version'' (JStr ''nalt-protocol/1.2.0'')
                               (AList.update ''entries'' (JArr es') new_doc)))))))
      | JArr xs \<Rightarrow> if JStr ''signature'' \<in> set xs then Inl TypeError else Inl AttributeError
      | _ \<Rightarrow> Inl AttributeError)"


section \<open>What the relocation claims say, as predicates\<close>

fun is_object :: "json \<Rightarrow> bool" where
  "is_object (JObj kvs) = True"
| "is_object v = False"

definition meta_object_or_absent :: "obj \<Rightarrow> bool" where
  "meta_object_or_absent d =
     (case map_of d ''meta'' of None \<Rightarrow> True | Some v \<Rightarrow> is_object v)"

text \<open>
  A field is relocated from \<open>fst m\<close> to \<open>snd m\<close>: when the source object has it, the
  result has the same value under the new name and nothing under the old one.
\<close>

definition relocated_to :: "obj \<Rightarrow> obj \<Rightarrow> string \<times> string \<Rightarrow> bool" where
  "relocated_to e e' m =
     (case map_of e (fst m) of
        None \<Rightarrow> True
      | Some v \<Rightarrow> map_of e' (snd m) = Some v \<and> map_of e' (fst m) = None)"

definition kept_fields :: "string list" where
  "kept_fields =
     [''entry_id'', ''type'', ''mode'', ''content_format'', ''content'',
      ''x_relations'', ''x_due_date'']"

fun entry_relocated :: "json \<Rightarrow> json \<Rightarrow> bool" where
  "entry_relocated (JObj e) (JObj e') =
     (list_all (relocated_to e e') fieldMappings \<and>
      list_all (\<lambda>k. map_of e' k = map_of e k) kept_fields)"
| "entry_relocated v v' = False"

definition utc_offset_relocated :: "obj \<Rightarrow> obj \<Rightarrow> bool" where
  "utc_offset_relocated d d' =
     (case map_of d ''meta'' of
        Some (JObj meta) \<Rightarrow>
          (case map_of meta ''x_utc_offset_minutes'' of
             None \<Rightarrow> map_of d' ''meta'' = Some (JObj meta)
           | Some u \<Rightarrow>
               map_of d' ''x_utc_offset_minutes'' = Some u \<and>
               map_of d' ''meta'' = Some (JObj (AList.delete ''x_utc_offset_minutes'' meta)))
      | _ \<Rightarrow> map_of d' ''meta'' = map_of d ''meta'')"


text \<open>
  The JavaScript step moves the signature only when it is truthy; a falsy one stays where
  it is.
\<close>

definition signature_relocated_js :: "obj \<Rightarrow> obj \<Rightarrow> bool" where
  "signature_relocated_js d d' =
     (if truthy_opt (map_of d ''signature'')
      then relocated_to d d' (''signature'', ''x_signature'')
      else map_of d' ''signature'' = map_of d ''signature'')"

text \<open>
  What the step promises of a result \<open>r\<close> for the document \<open>d\<close> with entries \<open>es\<close>:
  the tool stamps \<open>x_migrated_at\<close>, the class stamps \<open>x_migration\<close>.
\<close>

definition entries_relocated :: "json list \<Rightarrow> obj \<Rightarrow> bool" where
  "entries_relocated es d' =
     (case map_of d' ''entries'' of
        Some (JArr es') \<Rightarrow> list_all2 entry_relocated es es'
      | _ \<Rightarrow> False)"

definition tool_step_relocates :: "string \<Rightarrow> obj \<Rightarrow> json list \<Rightarrow> error + json \<Rightarrow> bool" where
  "tool_step_relocates now d es r =
     (case r of
        Inr (JObj d') \<Rightarrow>
          map_of d' ''spec_version'' = Some (JStr ''nalt-protocol/1.2.0'') \<and>
          map_of d' ''x_migrated_at'' = Some (JStr (now @ ''Z'')) \<and>
          relocated_to d d' (''signature'', ''x_signature'') \<and>
          utc_offset_relocated d d' \<and>
          entries_relocated es d'
      | _ \<Rightarrow> False)"

definition class_step_relocates :: "string \<Rightarrow> obj \<Rightarrow> json list \<Rightarrow> error + json \<Rightarrow> bool" where
  "class_step_relocates now d es r =
     (case r of
        Inr (JObj d') \<Rightarrow>
          map_of d' ''spec_version'' = Some (JStr ''nalt-protocol/1.2.0'') \<and>
          map_of d' ''x_migration'' = Some (x_migration_stamp ''1.1.1'' ''1.2.0'' now) \<and>
          signature_relocated_js d d' \<and>
          utc_offset_relocated d d' \<and>
          entries_relocated es d'
      | _ \<Rightarrow> False)"

text \<open>The field \<open>k\<close> of a result that is a document; \<open>None\<close> when there is none.\<close>

definition result_field :: "error + json \<Rightarrow> string \<Rightarrow> json option" where
  "result_field r k = (case r of Inr (JObj d) \<Rightarrow> map_of d k | _ \<Rightarrow> None)"

text \<open>
  Two objects that agree once the value of the first field named \<open>k\<close> is blanked differ at
  most in that value.
\<close>

fun blank :: "string \<Rightarrow> obj \<Rightarrow> obj" where
  "blank k [] = []"
| "blank k (p # ps) = (if fst p = k then (k, JNull) # ps else p # blank k ps)"


text \<open>
  A result without the provenance stamp \<open>x_migration\<close>, to compare two runs of the
  migrator.
\<close>

definition drop_stamp :: "error + json \<Rightarrow> error + json" where
  "drop_stamp r =
     (case r of Inr (JObj d) \<Rightarrow> Inr (JObj (AList.delete ''x_migration'' d)) | _ \<Rightarrow> r)"


section \<open>Example documents\<close>

text \<open>The signed example of the repository for version 1.1.1, with shortened texts.\<close>

definition signed_example_entries :: "json list" where
  "signed_example_entries =
     [JObj [(''entry_id'', JStr ''a3b4c5d6-e7f8-4a1b-9c2d-3e4f5a6b7c8d''),
            (''type'', JStr ''event''),
            (''mode'', JStr ''morning''),
            (''content_format'', JStr ''text/markdown''),
            (''content'', JStr ''Started a 3-day workshop''),
            (''summary'', JStr ''Began 3-day workshop''),
            (''moods'', JArr [JObj [(''type'', JStr ''excited''),
                                    (''intensity'', JNum (85 / 100))]]),
            (''tags'', JArr [JStr ''workshop'', JStr ''privacy''])],
      JObj [(''entry_id'', JStr ''b4c5d6e7-f8a9-4b2c-a3d4-4e5f6a7b8c9d''),
            (''type'', JStr ''idea''),
            (''mode'', JStr ''afternoon''),
            (''content_format'', JStr ''text/plain''),
            (''content'', JStr ''A decentralized personal data vault''),
            (''x_relations'', JArr
               [JObj [(''type'', JStr ''caused_by''),
                      (''target_id'', JStr ''a3b4c5d6-e7f8-4a1b-9c2d-3e4f5a6b7c8d'')]])]]"

definition signed_example :: obj where
  "signed_example =
     [(''spec_version'', JStr ''nalt-protocol/1.1.1''),
      (''document_id'', JStr ''07fdf576-19f8-4a2b-b986-53d77f2315fa''),
      (''date'', JStr ''2025-07-10''),
      (''end_date'', JStr ''2025-07-12''),
      (''meta'', JObj [(''language'', JStr ''en''), (''timezone'', JStr ''Asia/Tokyo''),
                       (''x_utc_offset_minutes'', JNum 540)]),
      (''entries'', JArr signed_example_entries),
      (''signature'', JObj [(''alg'', JStr ''EdDSA''), (''sig'', JStr ''eyJhbGciOiJFZERTQSJ9''),
                            (''public_key'', JStr ''did:key:z6Mkha'')])]"

text \<open>An entry that has a summary and an \<open>x_summary\<close> of its own already.\<close>

definition both_fields_example :: obj where
  "both_fields_example =
     [(''entry_id'', JStr ''e1''),
      (''type'', JStr ''log''),
      (''x_summary'', JStr ''written by an application''),
      (''summary'', JStr ''written by the author'')]"

text \<open>A document of version 1.0.0 with a legacy \<open>content_format\<close> and no \<open>document_id\<close>.\<close>

definition legacy_example :: obj where
  "legacy_example =
     [(''spec_version'', JStr ''nalt-protocol/1.0.0''),
      (''date'', JStr ''2025-07-09''),
      (''meta'', JObj [(''language'', JStr ''en''), (''timezone'', JStr ''America/New_York'')]),
      (''entries'', JArr
         [JObj [(''entry_id'', JStr ''e1''),
                (''type'', JStr ''reflection''),
                (''mode'', JStr ''morning''),
                (''content_format'', JStr ''plain_text''),
                (''content'', JStr ''Economics class''),
                (''summary'', JStr ''Understood the class'')]])]"

text \<open>A document whose declared version is not one of the four known ones.\<close>

definition unknown_version_example :: obj where
  "unknown_version_example =
     [(''spec_version'', JStr ''nalt-protocol/9.9.9''),
      (''date'', JStr ''2025-07-09''),
      (''entries'', JArr [])]"


section \<open>JSON Schema, as Ajv evaluates the keywords that the schemas use\<close>

datatype verr =
    SchemaError string string string
  | CustomError string string

fun err_path :: "verr \<Rightarrow> string" where
  "err_path (SchemaError instancePath keyword param) = instancePath"
| "err_path (CustomError path message) = path"

fun err_keyword :: "verr \<Rightarrow> string" where
  "err_keyword (SchemaError instancePath keyword param) = keyword"
| "err_keyword (CustomError path message) = []"

record platform =
  formats :: "string \<Rightarrow> string \<Rightarrow> bool"
  number_to_string :: "rat \<Rightarrow> string"
  string_to_number :: "string \<Rightarrow> rat option"

type_synonym checker = "string \<Rightarrow> json \<Rightarrow> verr list"

subsection \<open>Regular expressions of the schemas\<close>

datatype quant = Times nat | OneOrMore

type_synonym atom = "char list \<times> quant"

function re_match :: "atom list \<Rightarrow> string \<Rightarrow> bool" where
  "re_match [] s = (s = [])"
| "re_match ((cs, Times n) # r) s =
     (if n = 0 then re_match r s
      else case s of
        [] \<Rightarrow> False
      | c # t \<Rightarrow> c \<in> set cs \<and> re_match ((cs, Times (n - 1)) # r) t)"
| "re_match ((cs, OneOrMore) # r) s =
     (case s of
        [] \<Rightarrow> False
      | c # t \<Rightarrow> c \<in> set cs \<and> (re_match r t \<or> re_match ((cs, OneOrMore) # r) t))"
  by pat_completeness auto

termination
  by (relation "measures [\<lambda>(r, s). length s, \<lambda>(r, s). length r]") auto

declare re_match.simps [simp del]

datatype regex = Whole "atom list" | Start "atom list"

fun re_test :: "regex \<Rightarrow> string \<Rightarrow> bool" where
  "re_test (Whole r) s = re_match r s"
| "re_test (Start r) s = list_ex (\<lambda>n. re_match r (take n s)) [0..<Suc (length s)]"

definition lit :: "string \<Rightarrow> atom list" where
  "lit s = map (\<lambda>c. ([c], Times 1)) s"

definition lower :: "char list" where "lower = ''abcdefghijklmnopqrstuvwxyz''"

definition digits :: "char list" where "digits = ''0123456789''"

definition hex :: "char list" where "hex = ''0123456789abcdefABCDEF''"

subsection \<open>The formats that \<open>addFormats\<close> registers\<close>

definition nat_of_digits :: "string \<Rightarrow> nat" where
  "nat_of_digits s = foldl (\<lambda>n c. 10 * n + (of_char c - 48)) 0 s"

definition isLeapYear :: "nat \<Rightarrow> bool" where
  "isLeapYear year \<longleftrightarrow> year mod 4 = 0 \<and> (year mod 100 \<noteq> 0 \<or> year mod 400 = 0)"

definition DAYS :: "nat list" where
  "DAYS = [0, 31, 28, 31, 30, 31, 30, 31, 31, 30, 31, 30, 31]"

text \<open>\<open>date\<close>: \<open>/^(\d\d\d\d)-(\d\d)-(\d\d)$/\<close> and a day that the month has.\<close>

definition fmt_date :: "string \<Rightarrow> bool" where
  "fmt_date str =
     (re_match [(digits, Times 4), (''-'', Times 1), (digits, Times 2), (''-'', Times 1),
                (digits, Times 2)] str \<and>
      (let year = nat_of_digits (take 4 str);
           month = nat_of_digits (take 2 (drop 5 str));
           day = nat_of_digits (take 2 (drop 8 str))
       in 1 \<le> month \<and> month \<le> 12 \<and> 1 \<le> day \<and>
          day \<le> (if month = 2 \<and> isLeapYear year then 29 else DAYS ! month)))"

text \<open>
  \<open>time\<close>: \<open>/^(\d\d):(\d\d):(\d\d)(\.\d+)?(z|[+-]\d\d(?::?\d\d)?)?$/i\<close>, the optional
  groups written out as alternatives, and a time of day that exists.
\<close>

definition time_patterns :: "atom list list" where
  "time_patterns =
     (let clock = [(digits, Times 2), ('':'', Times 1), (digits, Times 2), ('':'', Times 1),
                   (digits, Times 2)];
          fractions = [] # [(''.'', Times 1), (digits, OneOrMore)] # [];
          zones = [] #
                  [(''zZ'', Times 1)] #
                  [(''+-'', Times 1), (digits, Times 2)] #
                  [(''+-'', Times 1), (digits, Times 2), (digits, Times 2)] #
                  [(''+-'', Times 1), (digits, Times 2), ('':'', Times 1), (digits, Times 2)] #
                  []
      in concat (map (\<lambda>fraction. map (\<lambda>zone. clock @ fraction @ zone) zones) fractions))"

definition fmt_time :: "string \<Rightarrow> bool" where
  "fmt_time str =
     (list_ex (\<lambda>r. re_match r str) time_patterns \<and>
      (let hour = nat_of_digits (take 2 str);
           minute = nat_of_digits (take 2 (drop 3 str));
           second = nat_of_digits (take 2 (drop 6 str))
       in (hour \<le> 23 \<and> minute \<le> 59 \<and> second \<le> 59) \<or>
          (hour = 23 \<and> minute = 59 \<and> second = 60)))"

text \<open>\<open>date-time\<close>: a date and a time around exactly one separator \<open>/t|\s/i\<close>.\<close>

definition is_separator :: "char \<Rightarrow> bool" where
  "is_separator c \<longleftrightarrow> c \<in> set [CHR ''t'', CHR ''T'', CHR '' '', CHR 0x09, CHR 0x0A, CHR 0x0B,
                                   CHR 0x0C, CHR 0x0D]"

definition fmt_date_time :: "string \<Rightarrow> bool" where
  "fmt_date_time str =
     (case dropWhile (\<lambda>c. \<not> is_separator c) str of
        [] \<Rightarrow> False
      | sep # after \<Rightarrow>
          \<not> list_ex is_separator after \<and>
          fmt_date (takeWhile (\<lambda>c. \<not> is_separator c) str) \<and> fmt_time after)"

text \<open>\<open>uuid\<close>: \<open>/^(?:urn:uuid:)?[0-9a-f]{8}-(?:[0-9a-f]{4}-){3}[0-9a-f]{12}$/i\<close>.\<close>

definition uuid_pattern :: "atom list" where
  "uuid_pattern =
     [(hex, Times 8), (''-'', Times 1), (hex, Times 4), (''-'', Times 1), (hex, Times 4),
      (''-'', Times 1), (hex, Times 4), (''-'', Times 1), (hex, Times 12)]"

definition urn_prefix :: "atom list" where
  "urn_prefix =
     [(''uU'', Times 1), (''rR'', Times 1), (''nN'', Times 1), ('':'', Times 1),
      (''uU'', Times 1), (''uU'', Times 1), (''iI'', Times 1), (''dD'', Times 1),
      ('':'', Times 1)]"

definition fmt_uuid :: "string \<Rightarrow> bool" where
  "fmt_uuid str \<longleftrightarrow> re_match uuid_pattern str \<or> re_match (urn_prefix @ uuid_pattern) str"

definition ajv_formats :: "string \<Rightarrow> string \<Rightarrow> bool" where
  "ajv_formats name str =
     (if name = ''date'' then fmt_date str
      else if name = ''date-time'' then fmt_date_time str
      else if name = ''uuid'' then fmt_uuid str
      else True)"

subsection \<open>Keywords\<close>

text \<open>
  A compiled schema maps the path of a value and the value to the errors that Ajv collects
  with \<open>allErrors\<close>: one error for each keyword that fails (one for each missing
  property of \<open>required\<close>, one for each extra property of \<open>additionalProperties\<close>).
  A keyword for one type of value passes every value of another type. The errors are listed
  keyword by keyword in the order of the schema text.
\<close>

datatype jtype = TObject | TArray | TString | TNumber | TInteger

fun has_type :: "jtype \<Rightarrow> json \<Rightarrow> bool" where
  "has_type TObject (JObj kvs) = True"
| "has_type TArray (JArr xs) = True"
| "has_type TString (JStr s) = True"
| "has_type TNumber (JNum r) = True"
| "has_type TInteger (JNum r) = (r = of_int \<lfloor>r\<rfloor>)"
| "has_type t v = False"

fun type_name :: "jtype \<Rightarrow> string" where
  "type_name TObject = ''object''"
| "type_name TArray = ''array''"
| "type_name TString = ''string''"
| "type_name TNumber = ''number''"
| "type_name TInteger = ''integer''"

text \<open>A reference token of a JSON pointer: \<open>~\<close> and \<open>/\<close> are escaped.\<close>

definition escape_token :: "string \<Rightarrow> string" where
  "escape_token k =
     concat (map (\<lambda>c. if c = CHR ''~'' then ''~0'' else if c = CHR ''/'' then ''~1'' else [c]) k)"

definition child :: "string \<Rightarrow> string \<Rightarrow> string" where
  "child path token = path @ ''/'' @ token"

definition schema :: "checker list \<Rightarrow> checker" where
  "schema keywords path v = concat (map (\<lambda>k. k path v) keywords)"

definition kw_type :: "jtype \<Rightarrow> checker" where
  "kw_type t path v = (if has_type t v then [] else [SchemaError path ''type'' (type_name t)])"

definition kw_required :: "string list \<Rightarrow> checker" where
  "kw_required names path v =
     (case v of
        JObj kvs \<Rightarrow>
          map (\<lambda>k. SchemaError path ''required'' k) (filter (\<lambda>k. map_of kvs k = None) names)
      | _ \<Rightarrow> [])"

definition kw_properties :: "(string \<times> checker) list \<Rightarrow> checker" where
  "kw_properties props path v =
     (case v of
        JObj kvs \<Rightarrow>
          concat (map (\<lambda>p. case map_of kvs (fst p) of
                              None \<Rightarrow> []
                            | Some x \<Rightarrow> snd p (child path (escape_token (fst p))) x) props)
      | _ \<Rightarrow> [])"

definition kw_patternProperties :: "(regex \<times> checker) list \<Rightarrow> checker" where
  "kw_patternProperties pats path v =
     (case v of
        JObj kvs \<Rightarrow>
          concat (map (\<lambda>p. concat (map (\<lambda>kv. if re_test (fst p) (fst kv)
                                               then snd p (child path (escape_token (fst kv))) (snd kv)
                                               else []) kvs)) pats)
      | _ \<Rightarrow> [])"

text \<open>
  \<open>additionalProperties\<close> looks at the fields that neither \<open>properties\<close> names nor a
  pattern of \<open>patternProperties\<close> matches: \<open>true\<close> accepts them, \<open>false\<close> rejects
  each of them, a schema is applied to each of them.
\<close>

datatype additional = Accepted | Rejected | Each checker

definition is_additional :: "string list \<Rightarrow> regex list \<Rightarrow> string \<Rightarrow> bool" where
  "is_additional names pats k \<longleftrightarrow> k \<notin> set names \<and> \<not> list_ex (\<lambda>r. re_test r k) pats"

definition kw_additionalProperties :: "string list \<Rightarrow> regex list \<Rightarrow> additional \<Rightarrow> checker" where
  "kw_additionalProperties names pats a path v =
     (case v of
        JObj kvs \<Rightarrow>
          (case a of
             Accepted \<Rightarrow> []
           | Rejected \<Rightarrow>
               map (\<lambda>kv. SchemaError path ''additionalProperties'' (fst kv))
                 (filter (\<lambda>kv. is_additional names pats (fst kv)) kvs)
           | Each c \<Rightarrow>
               concat (map (\<lambda>kv. c (child path (escape_token (fst kv))) (snd kv))
                 (filter (\<lambda>kv. is_additional names pats (fst kv)) kvs)))
      | _ \<Rightarrow> [])"

text \<open>The three keywords of an object schema that belong together.\<close>

definition object_properties ::
  "(string \<times> checker) list \<Rightarrow> (regex \<times> checker) list \<Rightarrow> additional \<Rightarrow> checker" where
  "object_properties props pats a =
     schema [kw_properties props, kw_patternProperties pats,
             kw_additionalProperties (map fst props) (map fst pats) a]"

definition kw_items :: "checker \<Rightarrow> checker" where
  "kw_items c path v =
     (case v of
        JArr xs \<Rightarrow> concat (map (\<lambda>ix. c (child path (show_nat (fst ix))) (snd ix)) (enumerate 0 xs))
      | _ \<Rightarrow> [])"

definition kw_minItems :: "nat \<Rightarrow> checker" where
  "kw_minItems n path v =
     (case v of JArr xs \<Rightarrow> if length xs < n then [SchemaError path ''minItems'' []] else []
      | _ \<Rightarrow> [])"

definition kw_maxItems :: "nat \<Rightarrow> checker" where
  "kw_maxItems n path v =
     (case v of JArr xs \<Rightarrow> if length xs > n then [SchemaError path ''maxItems'' []] else []
      | _ \<Rightarrow> [])"

definition kw_maxLength :: "nat \<Rightarrow> checker" where
  "kw_maxLength n path v =
     (case v of JStr s \<Rightarrow> if length s > n then [SchemaError path ''maxLength'' []] else []
      | _ \<Rightarrow> [])"

definition kw_enum :: "json list \<Rightarrow> checker" where
  "kw_enum allowed path v = (if v \<in> set allowed then [] else [SchemaError path ''enum'' []])"

definition kw_pattern :: "regex \<Rightarrow> checker" where
  "kw_pattern r path v =
     (case v of JStr s \<Rightarrow> if re_test r s then [] else [SchemaError path ''pattern'' []]
      | _ \<Rightarrow> [])"

definition kw_format :: "platform \<Rightarrow> string \<Rightarrow> checker" where
  "kw_format pf name path v =
     (case v of JStr s \<Rightarrow> if formats pf name s then [] else [SchemaError path ''format'' name]
      | _ \<Rightarrow> [])"

definition kw_minimum :: "rat \<Rightarrow> checker" where
  "kw_minimum m path v =
     (case v of JNum r \<Rightarrow> if r < m then [SchemaError path ''minimum'' []] else []
      | _ \<Rightarrow> [])"

definition kw_maximum :: "rat \<Rightarrow> checker" where
  "kw_maximum m path v =
     (case v of JNum r \<Rightarrow> if r > m then [SchemaError path ''maximum'' []] else []
      | _ \<Rightarrow> [])"

text \<open>\<open>multipleOf\<close>: the quotient is an integer.\<close>

definition is_multiple :: "rat \<Rightarrow> rat \<Rightarrow> bool" where
  "is_multiple r m \<longleftrightarrow> r / m = of_int \<lfloor>r / m\<rfloor>"

definition kw_multipleOf :: "rat \<Rightarrow> checker" where
  "kw_multipleOf m path v =
     (case v of JNum r \<Rightarrow> if is_multiple r m then [] else [SchemaError path ''multipleOf'' []]
      | _ \<Rightarrow> [])"

definition strings :: "string list \<Rightarrow> json list" where
  "strings xs = map JStr xs"

definition date_pattern :: regex where
  "date_pattern =
     Whole [(digits, Times 4), (''-'', Times 1), (digits, Times 2), (''-'', Times 1),
            (digits, Times 2)]"

definition x_prefix :: regex where
  "x_prefix = Start (lit ''x_'')"

definition anything :: checker where
  "anything = schema []"

definition array_of_strings :: checker where
  "array_of_strings = schema [kw_type TArray, kw_items (schema [kw_type TString])]"

definition entry_types :: "json list" where
  "entry_types = strings [''event'', ''reflection'', ''task'', ''idea'', ''log'']"

definition entry_modes :: "json list" where
  "entry_modes = strings [''morning'', ''afternoon'', ''evening'', ''night'', ''none'']"

definition mime_types :: "json list" where
  "mime_types =
     strings [''text/plain'', ''text/markdown'', ''text/html'', ''application/json'', ''text/org'']"

definition relation_types :: "json list" where
  "relation_types =
     strings [''caused_by'', ''led_to'', ''related_to'', ''explains'', ''contradicts'']"

definition signature_algs :: "json list" where
  "signature_algs = strings [''EdDSA'', ''ES256'', ''RS256'']"

section \<open>The schema files\<close>

subsection \<open>\<open>schema/v1.0.0/schema.json\<close>\<close>

definition metaObject_v1_0_0 :: checker where
  "metaObject_v1_0_0 =
     schema [kw_type TObject,
       kw_required [''language'', ''timezone''],
       object_properties
         [(''language'', schema [kw_type TString, kw_pattern (Whole [(lower, Times 2)])]),
          (''timezone'', schema [kw_type TString])]
         [(x_prefix, anything)]
         Rejected]"

definition moodObject_v1_0_0 :: checker where
  "moodObject_v1_0_0 =
     schema [kw_type TObject,
       kw_required [''type'', ''intensity''],
       kw_properties
         [(''type'', schema [kw_type TString,
             kw_enum (strings [''happy'', ''excited'', ''peaceful'', ''content'', ''grateful'',
               ''sad'', ''angry'', ''anxious'', ''frustrated'', ''tired'', ''confused'', ''lonely'',
               ''calm'', ''neutral'', ''curious'', ''nostalgic'', ''surprised'', ''hopeful'',
               ''proud'', ''motivated''])]),
          (''intensity'', schema [kw_type TNumber, kw_minimum 0, kw_maximum 1])]]"

definition entitiesObject_v1_0_0 :: checker where
  "entitiesObject_v1_0_0 =
     schema [kw_type TObject,
       kw_properties
         [(''people'', array_of_strings),
          (''locations'', array_of_strings),
          (''organizations'', array_of_strings),
          (''products'', array_of_strings),
          (''media'', array_of_strings)]]"

definition relationObject :: checker where
  "relationObject =
     schema [kw_type TObject,
       kw_required [''type'', ''target_id''],
       kw_properties
         [(''type'', schema [kw_type TString, kw_enum relation_types]),
          (''target_id'', schema [kw_type TString])]]"

definition entryObject_v1_0_0 :: "platform \<Rightarrow> checker" where
  "entryObject_v1_0_0 pf =
     schema [kw_type TObject,
       kw_required [''entry_id'', ''type'', ''mode'', ''content_format'', ''content''],
       object_properties
         [(''entry_id'', schema [kw_type TString]),
          (''type'', schema [kw_type TString, kw_enum entry_types]),
          (''mode'', schema [kw_type TString, kw_enum entry_modes]),
          (''content_format'', schema [kw_type TString]),
          (''content'', schema [kw_type TString]),
          (''summary'', schema [kw_type TString, kw_maxLength 140]),
          (''moods'', schema [kw_type TArray, kw_items moodObject_v1_0_0]),
          (''tags'', schema [kw_type TArray, kw_minItems 1, kw_maxItems 6,
             kw_items (schema [kw_type TString,
               kw_pattern (Whole [(lower @ digits @ ''_'', OneOrMore)])])]),
          (''entities'', entitiesObject_v1_0_0),
          (''x_due_date'', schema [kw_type TString, kw_format pf ''date'']),
          (''x_relations'', schema [kw_type TArray, kw_items relationObject])]
         [(x_prefix, anything)]
         Rejected]"

definition schema_v1_0_0 :: "platform \<Rightarrow> checker" where
  "schema_v1_0_0 pf =
     schema [kw_type TObject,
       kw_required [''spec_version'', ''date'', ''meta'', ''entries''],
       object_properties
         [(''spec_version'', schema [kw_type TString,
             kw_pattern (Whole (lit ''nalt-protocol/1.0.0''))]),
          (''document_id'', schema [kw_type TString, kw_format pf ''uuid'']),
          (''date'', schema [kw_type TString, kw_format pf ''date'', kw_pattern date_pattern]),
          (''meta'', metaObject_v1_0_0),
          (''entries'', schema [kw_type TArray, kw_minItems 1,
             kw_items (entryObject_v1_0_0 pf)])]
         []
         Accepted]"

subsection \<open>\<open>schema/v1.1.1/schema.json\<close>\<close>

definition metaObject_v1_1_1 :: checker where
  "metaObject_v1_1_1 =
     schema [kw_type TObject,
       kw_required [''language'', ''timezone''],
       object_properties
         [(''language'', schema [kw_type TString, kw_pattern (Whole [(lower, Times 2)])]),
          (''timezone'', schema [kw_type TString]),
          (''x_utc_offset_minutes'', schema [kw_type TInteger])]
         [(x_prefix, anything)]
         Accepted]"

definition moodObject_v1_1_1 :: checker where
  "moodObject_v1_1_1 =
     schema [kw_type TObject,
       kw_required [''type'', ''intensity''],
       kw_properties
         [(''type'', schema [kw_type TString,
             kw_enum (strings [''happy'', ''excited'', ''peaceful'', ''content'', ''grateful'',
               ''calm'', ''hopeful'', ''proud'', ''motivated'', ''sad'', ''angry'', ''anxious'',
               ''frustrated'', ''tired'', ''confused'', ''lonely'', ''neutral'', ''curious'',
               ''nostalgic'', ''surprised''])]),
          (''intensity'', schema [kw_type TNumber, kw_minimum 0, kw_maximum 1,
             kw_multipleOf (1 / 100)])]]"

definition entitiesObject_v1_1_1 :: checker where
  "entitiesObject_v1_1_1 =
     schema [kw_type TObject,
       object_properties
         [(''people'', array_of_strings),
          (''locations'', array_of_strings),
          (''organizations'', array_of_strings),
          (''products'', array_of_strings),
          (''media'', array_of_strings)]
         []
         (Each array_of_strings)]"

definition signatureObject :: checker where
  "signatureObject =
     schema [kw_type TObject,
       kw_required [''alg'', ''sig'', ''public_key''],
       kw_properties
         [(''alg'', schema [kw_type TString, kw_enum signature_algs]),
          (''sig'', schema [kw_type TString]),
          (''public_key'', schema [kw_type TString])]]"

definition entryObject_v1_1_1 :: "platform \<Rightarrow> checker" where
  "entryObject_v1_1_1 pf =
     schema [kw_type TObject,
       kw_required [''entry_id'', ''type'', ''mode'', ''content_format'', ''content''],
       object_properties
         [(''entry_id'', schema [kw_type TString]),
          (''type'', schema [kw_type TString, kw_enum entry_types]),
          (''mode'', schema [kw_type TString, kw_enum entry_modes]),
          (''content_format'', schema [kw_type TString, kw_enum mime_types]),
          (''content'', schema [kw_type TString]),
          (''end_date'', schema [kw_type TString, kw_format pf ''date'', kw_pattern date_pattern]),
          (''summary'', schema [kw_type TString, kw_maxLength 140]),
          (''moods'', schema [kw_type TArray, kw_items moodObject_v1_1_1]),
          (''tags'', schema [kw_type TArray, kw_minItems 1, kw_maxItems 6,
             kw_items (schema [kw_type TString,
               kw_pattern (Whole [(lower @ digits @ ''_'', OneOrMore)])])]),
          (''entities'', entitiesObject_v1_1_1),
          (''created_at'', schema [kw_type TString, kw_format pf ''date-time'']),
          (''x_due_date'', schema [kw_type TString, kw_format pf ''date'']),
          (''x_relations'', schema [kw_type TArray, kw_items relationObject])]
         [(x_prefix, anything)]
         Accepted]"

definition schema_v1_1_1 :: "platform \<Rightarrow> checker" where
  "schema_v1_1_1 pf =
     schema [kw_type TObject,
       kw_required [''spec_version'', ''document_id'', ''date'', ''meta'', ''entries''],
       object_properties
         [(''spec_version'', schema [kw_type TString,
             kw_pattern (Whole (lit ''nalt-protocol/1.1.1''))]),
          (''document_id'', schema [kw_type TString, kw_format pf ''uuid'']),
          (''date'', schema [kw_type TString, kw_format pf ''date'', kw_pattern date_pattern]),
          (''meta'', metaObject_v1_1_1),
          (''entries'', schema [kw_type TArray, kw_minItems 1,
             kw_items (entryObject_v1_1_1 pf)]),
          (''signature'', signatureObject)]
         []
         Accepted]"

subsection \<open>The schema of version 1.2.0\<close>

definition metaObject_v1_2_0 :: checker where
  "metaObject_v1_2_0 =
     schema [kw_type TObject,
       kw_required [''language'', ''timezone''],
       object_properties
         [(''language'', schema [kw_type TString, kw_pattern (Whole [(lower, Times 2)])]),
          (''timezone'', schema [kw_type TString])]
         [(x_prefix, anything)]
         Accepted]"

definition entryObject_v1_2_0 :: checker where
  "entryObject_v1_2_0 =
     schema [kw_type TObject,
       kw_required [''entry_id'', ''type'', ''mode'', ''content_format'', ''content''],
       object_properties
         [(''entry_id'', schema [kw_type TString]),
          (''type'', schema [kw_type TString, kw_enum entry_types]),
          (''mode'', schema [kw_type TString, kw_enum entry_modes]),
          (''content_format'', schema [kw_type TString, kw_enum mime_types]),
          (''content'', schema [kw_type TString])]
         [(x_prefix, anything)]
         Accepted]"

definition schema_v1_2_0 :: "platform \<Rightarrow> checker" where
  "schema_v1_2_0 pf =
     schema [kw_type TObject,
       kw_required [''spec_version'', ''document_id'', ''date'', ''meta'', ''entries''],
       object_properties
         [(''spec_version'', schema [kw_type TString,
             kw_pattern (Whole (lit ''nalt-protocol/1.2.0''))]),
          (''document_id'', schema [kw_type TString, kw_format pf ''uuid'']),
          (''date'', schema [kw_type TString, kw_format pf ''date'', kw_pattern date_pattern]),
          (''meta'', metaObject_v1_2_0),
          (''entries'', schema [kw_type TArray, kw_minItems 1, kw_items entryObject_v1_2_0])]
         []
         Accepted]"

subsection \<open>\<open>NALTValidator.loadSchema\<close>\<close>

text \<open>
  The schema that the validator class of the documentation builds in memory. The entry and
  the signature are its \<open>definitions\<close>. It asks for \<open>spec_version\<close> 1.1.1.
\<close>

definition loadSchema_mood :: checker where
  "loadSchema_mood =
     schema [kw_type TObject,
       kw_required [''type'', ''intensity''],
       kw_properties
         [(''type'', schema [kw_type TString]),
          (''intensity'', schema [kw_type TNumber, kw_minimum 0, kw_maximum 1,
             kw_multipleOf (1 / 100)])]]"

definition loadSchema_entities :: checker where
  "loadSchema_entities =
     schema [kw_type TObject,
       object_properties
         [(''people'', array_of_strings),
          (''locations'', array_of_strings),
          (''organizations'', array_of_strings)]
         []
         (Each array_of_strings)]"

definition loadSchema_relation :: checker where
  "loadSchema_relation =
     schema [kw_type TObject,
       kw_required [''type'', ''target_id''],
       kw_properties
         [(''type'', schema [kw_enum relation_types]),
          (''target_id'', schema [kw_type TString])]]"


definition loadSchema_signature :: checker where
  "loadSchema_signature =
     schema [kw_type TObject,
       kw_required [''alg'', ''sig'', ''public_key''],
       kw_properties
         [(''alg'', schema [kw_enum signature_algs]),
          (''sig'', schema [kw_type TString]),
          (''public_key'', schema [kw_type TString])]]"


subsection \<open>The schema of version 1.1.0\<close>

text \<open>
  The schema file of version 1.1.0 is not among the sources; the schema of that version is
  the one that \<open>NALTValidator.loadSchema\<close> builds in the documentation of 1.1.0. It
  differs from the one above in the version it asks for, in the \<open>timestamp\<close> of the
  document, in the \<open>x_utc_offset_minutes\<close> of \<open>meta\<close> and in having no
  \<open>created_at\<close>.
\<close>

definition entry_v1_1_0 :: "platform \<Rightarrow> checker" where
  "entry_v1_1_0 pf =
     schema [kw_type TObject,
       kw_required [''entry_id'', ''type'', ''mode'', ''content_format'', ''content''],
       object_properties
         [(''entry_id'', schema [kw_type TString]),
          (''type'', schema [kw_enum entry_types]),
          (''mode'', schema [kw_enum entry_modes]),
          (''content_format'', schema [kw_enum mime_types]),
          (''content'', schema [kw_type TString]),
          (''summary'', schema [kw_type TString, kw_maxLength 140]),
          (''moods'', schema [kw_type TArray, kw_items loadSchema_mood]),
          (''tags'', schema [kw_type TArray, kw_minItems 1, kw_maxItems 6,
             kw_items (schema [kw_type TString,
               kw_pattern (Whole [(lower @ ''_'', OneOrMore)])])]),
          (''entities'', loadSchema_entities),
          (''end_date'', schema [kw_type TString, kw_format pf ''date'']),
          (''x_relations'', schema [kw_type TArray, kw_items loadSchema_relation]),
          (''x_due_date'', schema [kw_type TString, kw_format pf ''date''])]
         []
         Accepted]"

definition schema_v1_1_0 :: "platform \<Rightarrow> checker" where
  "schema_v1_1_0 pf =
     schema [kw_type TObject,
       kw_required [''spec_version'', ''document_id'', ''date'', ''meta'', ''entries''],
       object_properties
         [(''spec_version'', schema [kw_type TString,
             kw_pattern (Whole (lit ''nalt-protocol/1.1.0''))]),
          (''document_id'', schema [kw_type TString, kw_format pf ''uuid'']),
          (''date'', schema [kw_type TString, kw_format pf ''date'']),
          (''timestamp'', schema [kw_type TString, kw_format pf ''date-time'']),
          (''meta'', schema [kw_type TObject,
             kw_required [''language'', ''timezone''],
             object_properties
               [(''language'', schema [kw_type TString, kw_pattern (Whole [(lower, Times 2)])]),
                (''timezone'', schema [kw_type TString]),
                (''x_utc_offset_minutes'', schema [kw_type TInteger, kw_minimum (- 720),
                   kw_maximum 840])]
               []
               Accepted]),
          (''entries'', schema [kw_type TArray, kw_minItems 1, kw_items (entry_v1_1_0 pf)]),
          (''signature'', loadSchema_signature)]
         []
         Accepted]"

section \<open>The validators\<close>

subsection \<open>JavaScript coercions\<close>










subsection \<open>\<open>NALTValidator\<close>\<close>




datatype validation_result = Valid | Invalid "verr list"

fun valid :: "validation_result \<Rightarrow> bool" where
  "valid Valid = True"
| "valid (Invalid es) = False"

fun errors :: "validation_result \<Rightarrow> verr list" where
  "errors Valid = []"
| "errors (Invalid es) = es"


subsection \<open>The command-line validators\<close>

text \<open>
  Both build Ajv with its default options: validation stops at the first keyword that
  fails, so \<open>validate.errors\<close> holds one error. Which of the errors comes first follows
  the order in which Ajv runs the keywords; here it is the first in the order of the schema
  text. The outcome is what the run prints; the warnings of the second validator are not
  part of it.
\<close>

datatype outcome = Successful | Failed "verr list"

definition ajv_default :: "checker \<Rightarrow> json \<Rightarrow> outcome" where
  "ajv_default compiled instance =
     (case compiled [] instance of [] \<Rightarrow> Successful | e # es \<Rightarrow> Failed [e])"

definition validatePersonalProtocol :: "platform \<Rightarrow> json \<Rightarrow> outcome" where
  "validatePersonalProtocol pf instance = ajv_default (schema_v1_0_0 pf) instance"

text \<open>
  \<open>validateNALTProtocol\<close> reads \<open>schema/<version>/schema.json\<close>; a version without a
  schema file ends the run before any validation (\<open>None\<close>).
\<close>

definition schema_file :: "platform \<Rightarrow> string \<Rightarrow> checker option" where
  "schema_file pf =
     map_of [(''v1.0.0'', schema_v1_0_0 pf),
             (''v1.1.0'', schema_v1_1_0 pf),
             (''v1.1.1'', schema_v1_1_1 pf),
             (''v1.2.0'', schema_v1_2_0 pf)]"

definition validateNALTProtocol :: "platform \<Rightarrow> string \<Rightarrow> json \<Rightarrow> outcome option" where
  "validateNALTProtocol pf version instance =
     map_option (\<lambda>compiled. ajv_default compiled instance) (schema_file pf version)"

text \<open>The platform of the examples: the formats of Ajv; no example converts a number.\<close>

definition example_platform :: platform where
  "example_platform =
     \<lparr>formats = ajv_formats, number_to_string = (\<lambda>r. []), string_to_number = (\<lambda>s. None)\<rparr>"

section \<open>What the validation claims say, as predicates\<close>

text \<open>A schema never reports an error of the keyword \<open>kw\<close>.\<close>

definition never_emits :: "string \<Rightarrow> checker \<Rightarrow> bool" where
  "never_emits kw c \<longleftrightarrow> (\<forall>path v. \<forall>e \<in> set (c path v). err_keyword e \<noteq> kw)"

definition entry_fields_v1_0_0 :: "string list" where
  "entry_fields_v1_0_0 =
     [''entry_id'', ''type'', ''mode'', ''content_format'', ''content'', ''summary'', ''moods'',
      ''tags'', ''entities'', ''x_due_date'', ''x_relations'']"

definition meta_fields_v1_0_0 :: "string list" where
  "meta_fields_v1_0_0 = [''language'', ''timezone'']"

definition has_x_prefix :: "string \<Rightarrow> bool" where
  "has_x_prefix k \<longleftrightarrow> take 2 k = ''x_''"

definition with_keyword :: "string \<Rightarrow> verr list \<Rightarrow> verr list" where
  "with_keyword kw es = filter (\<lambda>e. err_keyword e = kw) es"

definition failed :: "outcome option \<Rightarrow> bool" where
  "failed r = (case r of Some (Failed es) \<Rightarrow> True | _ \<Rightarrow> False)"

definition unknown_entry_field :: "obj \<Rightarrow> nat \<Rightarrow> string \<Rightarrow> bool" where
  "unknown_entry_field d i k =
     (case map_of d ''entries'' of
        Some (JArr es) \<Rightarrow>
          i < length es \<and>
          (case es ! i of
             JObj e \<Rightarrow> map_of e k \<noteq> None \<and> k \<notin> set entry_fields_v1_0_0 \<and> \<not> has_x_prefix k
           | _ \<Rightarrow> False)
      | _ \<Rightarrow> False)"

definition unknown_meta_field :: "obj \<Rightarrow> string \<Rightarrow> bool" where
  "unknown_meta_field d k =
     (case map_of d ''meta'' of
        Some (JObj m) \<Rightarrow> map_of m k \<noteq> None \<and> k \<notin> set meta_fields_v1_0_0 \<and> \<not> has_x_prefix k
      | _ \<Rightarrow> False)"











subsection \<open>The shape that the schema of the validator guarantees\<close>

definition relation_ok :: "json \<Rightarrow> bool" where
  "relation_ok v =
     (case v of
        JObj r \<Rightarrow> (case map_of r ''target_id'' of Some (JStr t) \<Rightarrow> True | _ \<Rightarrow> False)
      | _ \<Rightarrow> False)"

definition entry_ok :: "json \<Rightarrow> bool" where
  "entry_ok v =
     (case v of
        JObj e \<Rightarrow>
          (case map_of e ''entry_id'' of Some (JStr i) \<Rightarrow> True | _ \<Rightarrow> False) \<and>
          (case map_of e ''x_relations'' of
             None \<Rightarrow> True
           | Some (JArr rs) \<Rightarrow> list_all relation_ok rs
           | _ \<Rightarrow> False)
      | _ \<Rightarrow> False)"

subsection \<open>The custom checks on a document of that shape\<close>








text \<open>
  A document with a field \<open>editor\<close> in its \<open>meta\<close> and a field \<open>priority\<close> in its
  entry; no schema names them and they have no \<open>x_\<close> prefix.
\<close>

definition unknown_field_example :: "string \<Rightarrow> string \<Rightarrow> obj" where
  "unknown_field_example version format =
     [(''spec_version'', JStr (''nalt-protocol/'' @ version)),
      (''document_id'', JStr ''550e8400-e29b-41d4-a716-446655440000''),
      (''date'', JStr ''2025-01-15''),
      (''meta'', JObj [(''language'', JStr ''en''), (''timezone'', JStr ''UTC''),
                       (''editor'', JStr ''vim'')]),
      (''entries'', JArr
         [JObj [(''entry_id'', JStr ''e1''),
                (''type'', JStr ''reflection''),
                (''mode'', JStr ''evening''),
                (''content_format'', JStr format),
                (''content'', JStr ''Feeling good''),
                (''priority'', JStr ''high'')]])]"




section \<open>Properties of the migrator\<close>

subsection \<open>Migrating to the version the document already has\<close>



subsection \<open>The step from 1.1.1 to 1.2.0 relocates fields\<close>



lemma map_of_move_field:
  "map_of (move_field m e) =
     (case map_of e (fst m) of None \<Rightarrow> map_of e
      | Some v \<Rightarrow> ((map_of e)(snd m \<mapsto> v))(fst m := None))"
  by (simp add: move_field_def AList.update_conv' AList.delete_conv' split: option.split)

lemma move_field_other:
  "k \<noteq> fst m \<Longrightarrow> k \<noteq> snd m \<Longrightarrow> map_of (move_field m e) k = map_of e k"
  by (simp add: map_of_move_field split: option.split)

lemma move_field_absent:
  "map_of e k = None \<Longrightarrow> k \<noteq> snd m \<Longrightarrow> map_of (move_field m e) k = None"
  by (simp add: map_of_move_field split: option.split)

lemma move_field_old:
  "fst m \<noteq> snd m \<Longrightarrow> map_of (move_field m e) (fst m) = None"
  by (simp add: map_of_move_field split: option.split)

lemma move_field_new:
  "map_of e (fst m) = Some v \<Longrightarrow> fst m \<noteq> snd m \<Longrightarrow> map_of (move_field m e) (snd m) = Some v"
  by (simp add: map_of_move_field)

lemma fold_move_other:
  "k \<notin> fst ` set ms \<Longrightarrow> k \<notin> snd ` set ms \<Longrightarrow> map_of (fold move_field ms e) k = map_of e k"
  by (induction ms arbitrary: e) (simp_all add: move_field_other)

lemma fold_move_absent:
  "map_of e k = None \<Longrightarrow> k \<notin> snd ` set ms \<Longrightarrow> map_of (fold move_field ms e) k = None"
  by (induction ms arbitrary: e) (simp_all add: move_field_absent)

lemma fold_move_old:
  "k \<in> fst ` set ms \<Longrightarrow> k \<notin> snd ` set ms \<Longrightarrow> map_of (fold move_field ms e) k = None"
proof (induction ms arbitrary: e)
  case Nil
  then show ?case by simp
next
  case (Cons m ms)
  show ?case
  proof (cases "k = fst m")
    case True
    with Cons.prems have "map_of (move_field m e) k = None"
      by (simp add: move_field_old)
    with Cons.prems show ?thesis
      by (simp add: fold_move_absent)
  next
    case False
    with Cons show ?thesis by auto
  qed
qed

lemma fold_move_new:
  assumes "(old, new) \<in> set ms" and "distinct (map fst ms)" and "distinct (map snd ms)"
    and "fst ` set ms \<inter> snd ` set ms = {}" and "map_of e old = Some v"
  shows "map_of (fold move_field ms e) new = Some v"
  using assms
proof (induction ms arbitrary: e)
  case Nil
  then show ?case by simp
next
  case (Cons m ms)
  show ?case
  proof (cases "m = (old, new)")
    case True
    from Cons.prems True have neq: "old \<noteq> new" by auto
    from Cons.prems True have "new \<notin> fst ` set ms" "new \<notin> snd ` set ms"
      by (auto simp: image_iff)
    then have "map_of (fold move_field ms (move_field m e)) new = map_of (move_field m e) new"
      by (rule fold_move_other)
    also have "\<dots> = Some v"
      using move_field_new [of e m v] Cons.prems(5) True neq by simp
    finally show ?thesis by simp
  next
    case False
    with Cons.prems have mem: "(old, new) \<in> set ms" by simp
    from Cons.prems mem have "old \<noteq> fst m"
      by (auto simp: image_iff)
    moreover from Cons.prems mem have "old \<noteq> snd m"
      by (metis IntI empty_iff fst_conv image_eqI list.set_intros(1) list.set_intros(2))
    ultimately have "map_of (move_field m e) old = Some v"
      using Cons.prems(5) by (simp add: move_field_other)
    moreover from Cons.prems have "distinct (map fst ms)" "distinct (map snd ms)"
      "fst ` set ms \<inter> snd ` set ms = {}" by auto
    ultimately show ?thesis
      using Cons.IH [OF mem] by simp
  qed
qed

lemma fieldMappings_shape:
  "distinct (map fst fieldMappings)" "distinct (map snd fieldMappings)"
  "fst ` set fieldMappings \<inter> snd ` set fieldMappings = {}"
  by (simp_all add: fieldMappings_def)

lemma field_mappings_eq: "field_mappings = fieldMappings"
  by (simp add: field_mappings_def fieldMappings_def)

lemma move_field_py_eq: "fst m \<noteq> snd m \<Longrightarrow> move_field_py m e = move_field m e"
  by (simp add: move_field_py_def move_field_def AList.delete_update split: option.split)

lemma fold_move_field_py_eq:
  "\<forall>m \<in> set ms. fst m \<noteq> snd m \<Longrightarrow> fold move_field_py ms e = fold move_field ms e"
  by (induction ms arbitrary: e) (simp_all add: move_field_py_eq)

lemma migrate_entry_object:
  "migrate_entry (JObj e) = Inr (migrateEntry_1_1_1 (JObj e))"
proof -
  have "\<forall>m \<in> set fieldMappings. fst m \<noteq> snd m"
    by (simp add: fieldMappings_def)
  then show ?thesis
    by (simp add: migrateEntry_1_1_1_def field_mappings_eq fold_move_field_py_eq)
qed

lemma relocated_fold:
  assumes "m \<in> set fieldMappings"
  shows "relocated_to e (fold move_field fieldMappings e) m"
proof (cases "map_of e (fst m)")
  case None
  then show ?thesis by (simp add: relocated_to_def)
next
  case (Some v)
  from assms have mem: "(fst m, snd m) \<in> set fieldMappings" by simp
  have new: "map_of (fold move_field fieldMappings e) (snd m) = Some v"
    using fold_move_new [OF mem fieldMappings_shape Some] .
  from assms fieldMappings_shape(3) have "fst m \<notin> snd ` set fieldMappings"
    by blast
  with assms have "map_of (fold move_field fieldMappings e) (fst m) = None"
    by (simp add: fold_move_old)
  with new Some show ?thesis by (simp add: relocated_to_def)
qed

lemma kept_fold:
  assumes "k \<in> set kept_fields"
  shows "map_of (fold move_field fieldMappings e) k = map_of e k"
proof -
  from assms have "k \<notin> fst ` set fieldMappings" "k \<notin> snd ` set fieldMappings"
    by (auto simp: kept_fields_def fieldMappings_def)
  then show ?thesis by (rule fold_move_other)
qed

lemma entry_relocated_js:
  "is_object e \<Longrightarrow> entry_relocated e (migrateEntry_1_1_1 e)"
  by (cases e) (simp_all add: migrateEntry_1_1_1_def list_all_iff relocated_fold kept_fold)

lemma entries_relocated_js:
  "list_all is_object es \<Longrightarrow> list_all2 entry_relocated es (map migrateEntry_1_1_1 es)"
  by (induction es) (simp_all add: entry_relocated_js)

lemma map_err_migrate_entry:
  "list_all is_object es \<Longrightarrow> map_err migrate_entry es = Inr (map migrateEntry_1_1_1 es)"
proof (induction es)
  case Nil
  then show ?case by simp
next
  case (Cons e es)
  then obtain kvs where "e = JObj kvs" by (cases e) simp_all
  with Cons show ?case by (simp add: migrate_entry_object del: migrate_entry.simps)
qed

subsection \<open>The document level\<close>

lemma map_of_py_move_signature:
  "map_of (py_move_signature d) k =
     (if map_of d ''signature'' = None then map_of d k
      else if k = ''x_signature'' then map_of d ''signature''
      else if k = ''signature'' then None else map_of d k)"
  by (auto simp: py_move_signature_def AList.update_conv' AList.delete_conv' split: option.split)

lemma map_of_move_signature:
  "map_of (move_signature d) k =
     (if \<not> truthy_opt (map_of d ''signature'') then map_of d k
      else if k = ''x_signature'' then map_of d ''signature''
      else if k = ''signature'' then None else map_of d k)"
  by (auto simp: move_signature_def truthy_opt_def AList.update_conv' AList.delete_conv'
      split: option.split)

lemma map_of_move_utc_offset:
  "map_of (move_utc_offset d) k =
     (case map_of d ''meta'' of
        Some (JObj meta) \<Rightarrow>
          (case map_of meta ''x_utc_offset_minutes'' of
             None \<Rightarrow> map_of d k
           | Some u \<Rightarrow>
               if k = ''meta'' then Some (JObj (AList.delete ''x_utc_offset_minutes'' meta))
               else if k = ''x_utc_offset_minutes'' then Some u else map_of d k)
      | _ \<Rightarrow> map_of d k)"
  by (auto simp: move_utc_offset_def AList.update_conv' split: option.split json.split)

lemma update_commute_present:
  "k \<noteq> k' \<Longrightarrow> map_of d k' = Some w \<Longrightarrow>
   AList.update k v (AList.update k' v' d) = AList.update k' v' (AList.update k v d)"
  by (induction d) (auto split: if_splits)

lemma py_move_utc_offset_object:
  "meta_object_or_absent d \<Longrightarrow> py_move_utc_offset d = Inr (move_utc_offset d)"
  by (auto simp: meta_object_or_absent_def py_move_utc_offset_def move_utc_offset_def
      update_commute_present split: option.split json.split)

lemma meta_object_or_absent_py_move_signature:
  "meta_object_or_absent (py_move_signature d) = meta_object_or_absent d"
  by (simp add: meta_object_or_absent_def map_of_py_move_signature)

lemma step_python:
  assumes es: "map_of d ''entries'' = Some (JArr es)"
    and objs: "list_all is_object es"
    and meta: "meta_object_or_absent d"
  shows "\<exists>d' es'. migrate_document now (JObj d) = Inr (JObj d') \<and>
     map_of d' ''spec_version'' = Some (JStr ''nalt-protocol/1.2.0'') \<and>
     map_of d' ''x_migrated_at'' = Some (JStr (now @ ''Z'')) \<and>
     relocated_to d d' (''signature'', ''x_signature'') \<and>
     utc_offset_relocated d d' \<and>
     map_of d' ''entries'' = Some (JArr es') \<and>
     list_all2 entry_relocated es es'"
proof -
  define d2 where "d2 = move_utc_offset (py_move_signature d)"
  define es' where "es' = map migrateEntry_1_1_1 es"
  define d' where "d' = AList.update ''x_migrated_at'' (JStr (now @ ''Z''))
       (AList.update ''spec_version'' (JStr ''nalt-protocol/1.2.0'')
          (AList.update ''entries'' (JArr es') d2))"
  have step2: "py_move_utc_offset (py_move_signature d) = Inr d2"
    unfolding d2_def using meta
    by (simp add: py_move_utc_offset_object meta_object_or_absent_py_move_signature)
  have meta2: "map_of (py_move_signature d) ''meta'' = map_of d ''meta''"
    by (simp add: map_of_py_move_signature)
  have ent2: "map_of d2 ''entries'' = Some (JArr es)"
    unfolding d2_def using es
    by (simp add: map_of_move_utc_offset map_of_py_move_signature split: option.split json.split)
  have run: "migrate_document now (JObj d) = Inr (JObj d')"
    using step2 ent2 objs
    by (simp add: migrate_document_def py_iterate_def map_err_migrate_entry d'_def es'_def)
  have look: "map_of d' k =
      (if k = ''x_migrated_at'' then Some (JStr (now @ ''Z''))
       else if k = ''spec_version'' then Some (JStr ''nalt-protocol/1.2.0'')
       else if k = ''entries'' then Some (JArr es') else map_of d2 k)" for k
    by (simp add: d'_def AList.update_conv')
  have sig: "relocated_to d d' (''signature'', ''x_signature'')"
    by (simp add: relocated_to_def look d2_def map_of_move_utc_offset map_of_py_move_signature
        split: option.split json.split)
  have utc: "utc_offset_relocated d d'"
    by (simp add: utc_offset_relocated_def look d2_def map_of_move_utc_offset meta2
        map_of_py_move_signature split: option.split json.split)
  have "list_all2 entry_relocated es es'"
    unfolding es'_def using objs by (rule entries_relocated_js)
  with run sig utc show ?thesis
    by (intro exI [of _ d'] exI [of _ es']) (simp add: look)
qed

lemma step_js:
  assumes es: "map_of d ''entries'' = Some (JArr es)"
    and objs: "list_all is_object es"
  shows "\<exists>d' es'. migrateFrom_1_1_1 now (JObj d) = Inr (JObj d') \<and>
     map_of d' ''spec_version'' = Some (JStr ''nalt-protocol/1.2.0'') \<and>
     map_of d' ''x_migration'' = Some (x_migration_stamp ''1.1.1'' ''1.2.0'' now) \<and>
     signature_relocated_js d d' \<and>
     utc_offset_relocated d d' \<and>
     map_of d' ''entries'' = Some (JArr es') \<and>
     list_all2 entry_relocated es es'"
proof -
  define d1 where "d1 = AList.update ''spec_version'' (JStr ''nalt-protocol/1.2.0'') d"
  define d3 where "d3 = move_utc_offset (move_signature d1)"
  define es' where "es' = map migrateEntry_1_1_1 es"
  define d' where "d' = AList.update ''x_migration'' (x_migration_stamp ''1.1.1'' ''1.2.0'' now)
       (AList.update ''entries'' (JArr es') d3)"
  have look1: "map_of d1 k =
      (if k = ''spec_version'' then Some (JStr ''nalt-protocol/1.2.0'') else map_of d k)" for k
    by (simp add: d1_def AList.update_conv')
  have ent3: "map_of d3 ''entries'' = Some (JArr es)"
    unfolding d3_def using es
    by (simp add: map_of_move_utc_offset map_of_move_signature look1
        split: option.split json.split)
  have run: "migrateFrom_1_1_1 now (JObj d) = Inr (JObj d')"
    using ent3 by (simp add: migrateFrom_1_1_1_def d'_def es'_def d3_def d1_def)
  have look: "map_of d' k =
      (if k = ''x_migration'' then Some (x_migration_stamp ''1.1.1'' ''1.2.0'' now)
       else if k = ''entries'' then Some (JArr es') else map_of d3 k)" for k
    by (simp add: d'_def AList.update_conv')
  have ver: "map_of d' ''spec_version'' = Some (JStr ''nalt-protocol/1.2.0'')"
    by (simp add: look d3_def map_of_move_utc_offset map_of_move_signature look1
        split: option.split json.split)
  have sig: "signature_relocated_js d d'"
    by (simp add: signature_relocated_js_def relocated_to_def look d3_def
        map_of_move_utc_offset map_of_move_signature look1 truthy_opt_def
        split: option.split json.split)
  have utc: "utc_offset_relocated d d'"
    by (simp add: utc_offset_relocated_def look d3_def map_of_move_utc_offset
        map_of_move_signature look1 split: option.split json.split)
  have "list_all2 entry_relocated es es'"
    unfolding es'_def using objs by (rule entries_relocated_js)
  with run ver sig utc show ?thesis
    by (intro exI [of _ d'] exI [of _ es']) (simp add: look)
qed

text \<open>
  C3, as amended. On a document whose \<open>entries\<close> are objects and whose \<open>meta\<close> is an
  object (or absent), the step from 1.1.1 to 1.2.0 moves \<open>signature\<close> to \<open>x_signature\<close>,
  \<open>meta.x_utc_offset_minutes\<close> to the document level, and in every entry \<open>summary\<close>,
  \<open>moods\<close>, \<open>tags\<close>, \<open>entities\<close>, \<open>end_date\<close> and \<open>created_at\<close> to the same
  names with the prefix \<open>x_\<close>: the value is under the new key and the old key is gone.
  The five core fields, \<open>x_relations\<close> and \<open>x_due_date\<close> of every entry keep their
  values, and \<open>spec_version\<close> becomes \<open>nalt-protocol/1.2.0\<close>. The Python tool
  \<open>migrate_document\<close> attaches \<open>x_migrated_at\<close>; the class method
  \<open>migrateFrom_1_1_1\<close> attaches the object \<open>x_migration\<close> instead, and moves the
  signature only when it is truthy.
\<close>

theorem step_1_1_1_to_1_2_0_relocates:
  assumes "map_of d ''entries'' = Some (JArr es)"
    and "list_all is_object es"
    and "meta_object_or_absent d"
  shows "tool_step_relocates now d es (migrate_document now (JObj d)) \<and>
         class_step_relocates now d es (migrateFrom_1_1_1 now (JObj d))"
proof
  from step_python [OF assms, of now]
  show "tool_step_relocates now d es (migrate_document now (JObj d))"
    by (auto simp: tool_step_relocates_def entries_relocated_def)
  from step_js [OF assms(1,2), of now]
  show "class_step_relocates now d es (migrateFrom_1_1_1 now (JObj d))"
    by (auto simp: class_step_relocates_def entries_relocated_def)
qed

theorem step_1_1_1_to_1_2_0_relocates_witness:
  "map_of signed_example ''entries'' = Some (JArr signed_example_entries) \<and>
   list_all is_object signed_example_entries \<and>
   meta_object_or_absent signed_example \<and>
   tool_step_relocates ''2025-08-01T12:00:00'' signed_example signed_example_entries
     (migrate_document ''2025-08-01T12:00:00'' (JObj signed_example)) \<and>
   class_step_relocates ''2025-08-01T12:00:00'' signed_example signed_example_entries
     (migrateFrom_1_1_1 ''2025-08-01T12:00:00'' (JObj signed_example))"
proof -
  have h1: "map_of signed_example ''entries'' = Some (JArr signed_example_entries)"
    by (simp add: signed_example_def)
  have h2: "list_all is_object signed_example_entries"
    by (simp add: signed_example_entries_def)
  have h3: "meta_object_or_absent signed_example"
    by (simp add: meta_object_or_absent_def signed_example_def)
  from step_1_1_1_to_1_2_0_relocates [OF h1 h2 h3, of "''2025-08-01T12:00:00''"] h1 h2 h3
  show ?thesis by simp
qed

text \<open>
  The claim as stated fails on the class method: its result for the signed example has no
  \<open>x_migrated_at\<close>; the stamp is the object \<open>x_migration\<close>.
\<close>

theorem class_step_stamp_counterexample:
  "result_field (migrateFrom_1_1_1 ''2025-08-01T12:00:00.000Z'' (JObj signed_example))
     ''x_migrated_at'' = None \<and>
   result_field (migrateFrom_1_1_1 ''2025-08-01T12:00:00.000Z'' (JObj signed_example))
     ''x_migration'' =
     Some (JObj [(''from_version'', JStr ''1.1.1''), (''to_version'', JStr ''1.2.0''),
                 (''migrated_at'', JStr ''2025-08-01T12:00:00.000Z'')])"
  by (simp add: result_field_def migrateFrom_1_1_1_def move_utc_offset_def move_signature_def
      signed_example_def x_migration_stamp_def)

subsection \<open>Overwriting\<close>

lemma blank_update_other:
  "k' \<noteq> k \<Longrightarrow> blank k (AList.update k' v e) = AList.update k' v (blank k e)"
  by (induction e) auto

lemma blank_delete:
  "k' \<noteq> k \<Longrightarrow> blank k (AList.delete k' e) = AList.delete k' (blank k e)"
  by (induction e) auto

lemma map_of_blank_other: "k' \<noteq> k \<Longrightarrow> map_of (blank k e) k' = map_of e k'"
  by (induction e) auto

lemma blank_update_same: "blank k (AList.update k w e) = blank k (AList.update k w' e)"
  by (induction e) auto

lemma update_blank_eq:
  "blank k e1 = blank k e2 \<Longrightarrow> AList.update k v e1 = AList.update k v e2"
proof (induction e1 arbitrary: e2)
  case Nil
  then show ?case by (cases e2) (auto split: if_splits)
next
  case (Cons p e1)
  show ?case
  proof (cases e2)
    case Nil
    with Cons.prems show ?thesis by (auto split: if_splits)
  next
    case (Cons q e2')
    with Cons.prems Cons.IH [of e2'] show ?thesis
      by (auto split: if_splits)
  qed
qed

lemma blank_eq_map_of:
  assumes "blank k e1 = blank k e2" and "k' \<noteq> k"
  shows "map_of e1 k' = map_of e2 k'"
proof -
  have "map_of e1 k' = map_of (blank k e1) k'" using assms(2) by (simp add: map_of_blank_other)
  also have "\<dots> = map_of (blank k e2) k'" using assms(1) by simp
  also have "\<dots> = map_of e2 k'" using assms(2) by (simp add: map_of_blank_other)
  finally show ?thesis .
qed

lemma move_field_blank:
  assumes "blank k e1 = blank k e2" and "fst m \<noteq> k" and "snd m \<noteq> k"
  shows "blank k (move_field m e1) = blank k (move_field m e2)"
proof -
  have "map_of e1 (fst m) = map_of e2 (fst m)"
    using assms(1,2) by (rule blank_eq_map_of)
  with assms show ?thesis
    by (simp add: move_field_def blank_delete blank_update_other split: option.split)
qed

lemma move_field_overwrites:
  assumes "blank k e1 = blank k e2" and "fst m \<noteq> k" and "snd m = k"
    and "map_of e1 (fst m) = Some v"
  shows "move_field m e1 = move_field m e2"
proof -
  have "map_of e2 (fst m) = Some v"
    using blank_eq_map_of [OF assms(1,2)] assms(4) by simp
  moreover have "AList.update k v e1 = AList.update k v e2"
    using assms(1) by (rule update_blank_eq)
  ultimately show ?thesis using assms by (simp add: move_field_def)
qed

lemma fold_move_overwrites:
  assumes "(old, new) \<in> set ms" and "distinct (map fst ms)" and "distinct (map snd ms)"
    and "fst ` set ms \<inter> snd ` set ms = {}" and "map_of e1 old = Some v"
    and "blank new e1 = blank new e2"
  shows "fold move_field ms e1 = fold move_field ms e2"
  using assms
proof (induction ms arbitrary: e1 e2)
  case Nil
  then show ?case by simp
next
  case (Cons m ms)
  from Cons.prems(1) have "old \<in> fst ` set (m # ms)" "new \<in> snd ` set (m # ms)"
    by force+
  with Cons.prems(4) have old_new: "old \<noteq> new" by blast
  show ?case
  proof (cases "m = (old, new)")
    case True
    with Cons.prems old_new have "move_field m e1 = move_field m e2"
      using move_field_overwrites [of new e1 e2 m v] by simp
    then show ?thesis by simp
  next
    case False
    with Cons.prems have mem: "(old, new) \<in> set ms" by simp
    from Cons.prems mem have n1: "old \<noteq> fst m"
      by (auto simp: image_iff)
    from Cons.prems mem have n2: "old \<noteq> snd m"
      by (metis IntI empty_iff fst_conv image_eqI list.set_intros(1) list.set_intros(2))
    from Cons.prems mem have n3: "snd m \<noteq> new"
      by (auto simp: image_iff)
    from Cons.prems mem have n4: "fst m \<noteq> new"
      by (metis IntI empty_iff snd_conv image_eqI list.set_intros(1) list.set_intros(2))
    have a: "map_of (move_field m e1) old = Some v"
      using Cons.prems(5) n1 n2 by (simp add: move_field_other)
    have b: "blank new (move_field m e1) = blank new (move_field m e2)"
      using Cons.prems(6) n4 n3 by (rule move_field_blank)
    from Cons.prems have "distinct (map fst ms)" "distinct (map snd ms)"
      "fst ` set ms \<inter> snd ` set ms = {}" by auto
    with Cons.IH [OF mem _ _ _ a b] show ?thesis by simp
  qed
qed

text \<open>
  C10. In the step from 1.1.1 to 1.2.0, an entry that has a field to relocate and already
  has a field with the target name (\<open>summary\<close> and \<open>x_summary\<close>, say) ends with the
  relocated value under the target name and nothing under the old name, in the class method
  and in the Python tool alike. The value that was under the target name is lost: whatever
  it was, the resulting entry is the same.
\<close>

theorem relocation_overwrites_extension:
  assumes m: "(old, new) \<in> set fieldMappings"
    and old: "map_of e old = Some v"
    and new: "map_of e new = Some w"
  shows "\<exists>e'. migrateEntry_1_1_1 (JObj e) = JObj e' \<and>
     migrate_entry (JObj e) = Inr (JObj e') \<and>
     map_of e' new = Some v \<and> map_of e' old = None \<and>
     (\<forall>w'. migrateEntry_1_1_1 (JObj (AList.update new w' e)) = JObj e' \<and>
           migrate_entry (JObj (AList.update new w' e)) = Inr (JObj e'))"
proof -
  define e' where "e' = fold move_field fieldMappings e"
  have run: "migrateEntry_1_1_1 (JObj e) = JObj e'"
    by (simp add: migrateEntry_1_1_1_def e'_def)
  have rel: "relocated_to e e' (old, new)"
    unfolding e'_def using m by (rule relocated_fold)
  have indep: "migrateEntry_1_1_1 (JObj (AList.update new w' e)) = JObj e'" for w'
  proof -
    have "AList.update new w e = e"
      using new by (rule AList.update_triv)
    then have "blank new e = blank new (AList.update new w' e)"
      using blank_update_same [of new w e w'] by simp
    from fold_move_overwrites [OF m fieldMappings_shape old this]
    show ?thesis by (simp add: migrateEntry_1_1_1_def e'_def)
  qed
  from run rel old indep show ?thesis
    by (intro exI [of _ e'])
      (simp add: relocated_to_def migrate_entry_object del: migrate_entry.simps)
qed

theorem relocation_overwrites_extension_witness:
  "(''summary'', ''x_summary'') \<in> set fieldMappings \<and>
   map_of both_fields_example ''summary'' = Some (JStr ''written by the author'') \<and>
   map_of both_fields_example ''x_summary'' = Some (JStr ''written by an application'') \<and>
   (\<exists>e'. migrateEntry_1_1_1 (JObj both_fields_example) = JObj e' \<and>
     migrate_entry (JObj both_fields_example) = Inr (JObj e') \<and>
     map_of e' ''x_summary'' = Some (JStr ''written by the author'') \<and>
     map_of e' ''summary'' = None \<and>
     (\<forall>w'. migrateEntry_1_1_1 (JObj (AList.update ''x_summary'' w' both_fields_example)) = JObj e' \<and>
           migrate_entry (JObj (AList.update ''x_summary'' w' both_fields_example)) = Inr (JObj e')))"
proof -
  have h1: "(''summary'', ''x_summary'') \<in> set fieldMappings"
    by (simp add: fieldMappings_def)
  have h2: "map_of both_fields_example ''summary'' = Some (JStr ''written by the author'')"
    by (simp add: both_fields_example_def)
  have h3: "map_of both_fields_example ''x_summary'' = Some (JStr ''written by an application'')"
    by (simp add: both_fields_example_def)
  from relocation_overwrites_extension [OF h1 h2 h3] h1 h2 h3
  show ?thesis by blast
qed

subsection \<open>Versions that the migrator does not know\<close>



lemma index_of_notin: "x \<notin> set xs \<Longrightarrow> index_of xs x = None"
  by (induction xs) auto

lemma index_of_Some_less: "index_of xs x = Some i \<Longrightarrow> i < length xs"
  by (induction xs arbitrary: i) (auto split: if_splits)

lemma path_in_tail: "set (getMigrationPath c t) \<subseteq> set (tl versions)"
proof -
  have "set (drop (Suc i) (take n xs)) \<subseteq> set (tl xs)" for i n and xs :: "string list"
  proof -
    have "drop (Suc i) (take n xs) = drop i (tl (take n xs))"
      by (simp add: drop_Suc)
    also have "tl (take n xs) = take (n - 1) (tl xs)"
      by (simp add: tl_take)
    finally show ?thesis
      by (metis set_drop_subset set_take_subset subset_trans)
  qed
  then show ?thesis
    by (auto simp: getMigrationPath_def split: option.split)
qed

lemma path_skips_1_0_0: "''1.0.0'' \<notin> set (getMigrationPath c t)"
  using path_in_tail [of c t] by (auto simp: versions_def)

lemma path_empty_unknown:
  "(case c of None \<Rightarrow> True | Some v \<Rightarrow> v \<notin> set versions) \<or> t \<notin> set versions \<Longrightarrow>
   getMigrationPath c t = []"
  by (auto simp: getMigrationPath_def index_of_notin split: option.split)

text \<open>
  C5, as amended. No error is raised for an unknown version. When \<open>spec_version\<close> is a
  string from which no known version can be read, or when the target is not a known version,
  the migration path is empty and \<open>migrate\<close> returns a normal result: the document
  unchanged, with \<open>migrated\<close> true (false only when the version read is the target).
\<close>

theorem migrate_unknown_version_no_error:
  assumes "map_of d ''spec_version'' = Some (JStr sv)"
    and "(case first_match sv of None \<Rightarrow> True | Some v \<Rightarrow> v \<notin> set versions) \<or> t \<notin> set versions"
  shows "migrate_to f now t (JObj d) =
           Inr \<lparr>document = JObj d, migrated = (first_match sv \<noteq> Some t)\<rparr>"
  using assms path_empty_unknown [of "first_match sv" t]
  by (simp add: migrate_to_def)

theorem migrate_unknown_version_no_error_witness:
  "map_of unknown_version_example ''spec_version'' = Some (JStr ''nalt-protocol/9.9.9'') \<and>
   ((case first_match ''nalt-protocol/9.9.9'' of None \<Rightarrow> True | Some v \<Rightarrow> v \<notin> set versions)
      \<or> ''1.2.0'' \<notin> set versions) \<and>
   migrate_to Inr ''2025-08-01T12:00:00.000Z'' ''1.2.0'' (JObj unknown_version_example) =
     Inr \<lparr>document = JObj unknown_version_example, migrated = True\<rparr>"
proof -
  have h1: "map_of unknown_version_example ''spec_version'' = Some (JStr ''nalt-protocol/9.9.9'')"
    by (simp add: unknown_version_example_def)
  have m: "first_match ''nalt-protocol/9.9.9'' = Some ''9.9.9''"
    by (simp add: match_here_def is_digit_def)
  have h2: "(case first_match ''nalt-protocol/9.9.9'' of None \<Rightarrow> True
             | Some v \<Rightarrow> v \<notin> set versions) \<or> ''1.2.0'' \<notin> set versions"
    unfolding m by (simp add: versions_def)
  have "(first_match ''nalt-protocol/9.9.9'' \<noteq> Some ''1.2.0'') = True"
    unfolding m by simp
  with migrate_unknown_version_no_error [OF h1 h2, of Inr "''2025-08-01T12:00:00.000Z''"]
  have "migrate_to Inr ''2025-08-01T12:00:00.000Z'' ''1.2.0'' (JObj unknown_version_example) =
     Inr \<lparr>document = JObj unknown_version_example, migrated = True\<rparr>"
    by (simp only:)
  with h1 h2 show ?thesis by (intro conjI)
qed

text \<open>
  The claim as stated fails: for a document that declares version 9.9.9 the source's
  \<open>migrate\<close> returns a normal result, with \<open>migrated\<close> true, and not an error.
\<close>

theorem migrate_unknown_version_counterexample:
  "migrate Inr ''2025-08-01T12:00:00.000Z'' (JObj unknown_version_example) =
   Inr \<lparr>document = JObj unknown_version_example, migrated = True\<rparr>"
  by (simp add: migrate_def migrate_to_def unknown_version_example_def match_here_def
      is_digit_def getMigrationPath_def versions_def)

subsection \<open>The step for documents of version 1.0.0 is never run\<close>

text \<open>
  C2. The table \<open>migrations\<close> is keyed by the version a step starts from, and the path
  lists the versions after the document's own, so the first step of a chain is looked up
  under the second version: no path contains \<open>1.0.0\<close>, and \<open>migrateFrom_1_0_0\<close> is
  never called, whatever it does. The legacy example migrated to 1.2.0 keeps its
  \<open>content_format\<close> \<open>plain_text\<close> and gets no \<open>document_id\<close>; the steps that were
  run are the one from 1.1.0 and the one from 1.1.1.
\<close>

theorem migrate_skips_step_from_1_0_0:
  "''1.0.0'' \<notin> set (getMigrationPath c t) \<and>
   migrate_to f now ''1.2.0'' (JObj legacy_example) =
  Inr \<lparr>document = JObj
     [(''spec_version'', JStr ''nalt-protocol/1.2.0''),
      (''date'', JStr ''2025-07-09''),
      (''meta'', JObj [(''language'', JStr ''en''), (''timezone'', JStr ''America/New_York'')]),
      (''entries'', JArr
         [JObj [(''entry_id'', JStr ''e1''),
                (''type'', JStr ''reflection''),
                (''mode'', JStr ''morning''),
                (''content_format'', JStr ''plain_text''),
                (''content'', JStr ''Economics class''),
                (''x_summary'', JStr ''Understood the class'')]]),
      (''x_migration'', JObj [(''from_version'', JStr ''1.1.1''), (''to_version'', JStr ''1.2.0''),
                              (''migrated_at'', JStr now)])],
    migrated = True\<rparr>"
proof (rule conjI)
  show "''1.0.0'' \<notin> set (getMigrationPath c t)"
    by (rule path_skips_1_0_0)
qed (simp add: migrate_to_def legacy_example_def match_here_def migrations_def
      is_digit_def getMigrationPath_def versions_def migrateFrom_1_1_0_def migrateFrom_1_1_0_to_1_1_1_def
      migrateFrom_1_1_1_def move_signature_def move_utc_offset_def migrateEntry_1_1_1_def
      fieldMappings_def move_field_def x_migration_stamp_def)

subsection \<open>Two runs differ in the stamp only\<close>

lemma drop_stamp_Inl [simp]: "drop_stamp (Inl e) = Inl e"
  by (simp add: drop_stamp_def)

lemma drop_stamp_obj [simp]:
  "drop_stamp (Inr (JObj d)) = Inr (JObj (AList.delete ''x_migration'' d))"
  by (simp add: drop_stamp_def)


















section \<open>Properties of the validators\<close>

subsection \<open>Where the errors of a schema come from\<close>

lemma schema_Nil [simp]: "schema [] path v = []"
  by (simp add: schema_def)

lemma schema_Cons [simp]: "schema (k # ks) path v = k path v @ schema ks path v"
  by (simp add: schema_def)

lemma in_schema: "k \<in> set ks \<Longrightarrow> e \<in> set (k path v) \<Longrightarrow> e \<in> set (schema ks path v)"
  by (auto simp: schema_def)

lemma schema_empty_iff: "schema ks path v = [] \<longleftrightarrow> (\<forall>k \<in> set ks. k path v = [])"
  by (induction ks) auto

lemma in_properties:
  assumes "(name, c) \<in> set props" and "map_of kvs name = Some x"
    and "e \<in> set (c (child path (escape_token name)) x)"
  shows "e \<in> set (kw_properties props path (JObj kvs))"
proof -
  let ?f = "\<lambda>p. case map_of kvs (fst p) of None \<Rightarrow> []
               | Some x \<Rightarrow> snd p (child path (escape_token (fst p))) x"
  from assms(2,3) have "e \<in> set (?f (name, c))" by simp
  with assms(1) have "e \<in> set (concat (map ?f props))"
    unfolding set_concat set_map by blast
  then show ?thesis by (simp add: kw_properties_def)
qed

lemma in_object_properties:
  "(name, c) \<in> set props \<Longrightarrow> map_of kvs name = Some x \<Longrightarrow>
   e \<in> set (c (child path (escape_token name)) x) \<Longrightarrow>
   e \<in> set (object_properties props pats a path (JObj kvs))"
  by (simp add: object_properties_def in_properties)

lemma in_items:
  assumes "i < length xs" and "e \<in> set (c (child path (show_nat i)) (xs ! i))"
  shows "e \<in> set (kw_items c path (JArr xs))"
proof -
  let ?f = "\<lambda>ix. c (child path (show_nat (fst ix))) (snd ix)"
  from assms(1) have "(i, xs ! i) \<in> set (enumerate 0 xs)"
    by (simp add: in_set_enumerate_eq)
  moreover from assms(2) have "e \<in> set (?f (i, xs ! i))" by simp
  ultimately have "e \<in> set (concat (map ?f (enumerate 0 xs)))"
    unfolding set_concat set_map by blast
  then show ?thesis by (simp add: kw_items_def)
qed

lemma in_additional_rejected:
  assumes "(k, x) \<in> set kvs" and "is_additional names pats k"
  shows "SchemaError path ''additionalProperties'' k
     \<in> set (kw_additionalProperties names pats Rejected path (JObj kvs))"
proof -
  from assms have "(k, x) \<in> set (filter (\<lambda>kv. is_additional names pats (fst kv)) kvs)"
    by simp
  then have "SchemaError path ''additionalProperties'' (fst (k, x))
      \<in> (\<lambda>kv. SchemaError path ''additionalProperties'' (fst kv)) `
          set (filter (\<lambda>kv. is_additional names pats (fst kv)) kvs)"
    by (rule imageI)
  then show ?thesis by (simp add: kw_additionalProperties_def)
qed

lemma in_object_rejected:
  "(k, x) \<in> set kvs \<Longrightarrow> is_additional (map fst props) (map fst pats) k \<Longrightarrow>
   SchemaError path ''additionalProperties'' k
     \<in> set (object_properties props pats Rejected path (JObj kvs))"
  by (simp add: object_properties_def in_additional_rejected)

lemma match_x_prefix: "re_match (lit ''x_'') s \<longleftrightarrow> s = ''x_''"
proof (cases s)
  case Nil
  then show ?thesis by (simp add: lit_def re_match.simps)
next
  case s1: (Cons c1 t1)
  show ?thesis
  proof (cases t1)
    case Nil
    with s1 show ?thesis by (simp add: lit_def re_match.simps)
  next
    case (Cons c2 t2)
    with s1 show ?thesis by (simp add: lit_def re_match.simps)
  qed
qed

lemma x_prefix_test: "re_test x_prefix k = has_x_prefix k"
proof -
  have "(\<exists>n \<le> length k. take n k = ''x_'') \<longleftrightarrow> take 2 k = ''x_''"
  proof
    assume "\<exists>n \<le> length k. take n k = ''x_''"
    then obtain n where n: "take n k = ''x_''" by blast
    have "k = take n k @ drop n k" by simp
    with n have "k = ''x_'' @ drop n k" by simp
    then have "take 2 k = take 2 (''x_'' @ drop n k)" by simp
    then show "take 2 k = ''x_''" by simp
  next
    assume t: "take 2 k = ''x_''"
    then have "length (take 2 k) = 2" by simp
    then have "2 \<le> length k" by simp
    with t show "\<exists>n \<le> length k. take n k = ''x_''" by blast
  qed
  moreover have "re_test x_prefix k \<longleftrightarrow> (\<exists>n \<le> length k. take n k = ''x_'')"
    by (auto simp: x_prefix_def match_x_prefix list_ex_iff less_Suc_eq_le simp del: upt_Suc)
  ultimately show ?thesis by (simp add: has_x_prefix_def)
qed

subsection \<open>Keywords that a schema never reports\<close>

lemma never_emits_schema:
  "(\<And>k. k \<in> set ks \<Longrightarrow> never_emits kw k) \<Longrightarrow> never_emits kw (schema ks)"
  by (auto simp: never_emits_def schema_def)

lemma never_emits_properties:
  "(\<And>p. p \<in> set props \<Longrightarrow> never_emits kw (snd p)) \<Longrightarrow> never_emits kw (kw_properties props)"
  unfolding never_emits_def kw_properties_def
  by (auto split: json.splits option.splits) blast

lemma never_emits_patternProperties:
  "(\<And>p. p \<in> set pats \<Longrightarrow> never_emits kw (snd p)) \<Longrightarrow>
   never_emits kw (kw_patternProperties pats)"
  unfolding never_emits_def kw_patternProperties_def
  by (auto split: json.splits if_splits) blast

lemma never_emits_additional_accepted:
  "never_emits kw (kw_additionalProperties names pats Accepted)"
  by (auto simp: never_emits_def kw_additionalProperties_def split: json.splits)

lemma never_emits_additional_each:
  "never_emits kw c \<Longrightarrow> never_emits kw (kw_additionalProperties names pats (Each c))"
  by (auto simp: never_emits_def kw_additionalProperties_def split: json.splits)


lemma never_emits_object:
  assumes "\<And>p. p \<in> set props \<Longrightarrow> never_emits kw (snd p)"
    and "\<And>p. p \<in> set pats \<Longrightarrow> never_emits kw (snd p)"
    and "never_emits kw (kw_additionalProperties (map fst props) (map fst pats) a)"
  shows "never_emits kw (object_properties props pats a)"
  unfolding object_properties_def
  by (rule never_emits_schema)
    (auto intro: never_emits_properties never_emits_patternProperties assms)

lemma never_emits_items: "never_emits kw c \<Longrightarrow> never_emits kw (kw_items c)"
  by (auto simp: never_emits_def kw_items_def split: json.splits)

lemma never_emits_leaf:
  "kw \<noteq> ''type'' \<Longrightarrow> never_emits kw (kw_type t)"
  "kw \<noteq> ''required'' \<Longrightarrow> never_emits kw (kw_required names)"
  "kw \<noteq> ''minItems'' \<Longrightarrow> never_emits kw (kw_minItems n)"
  "kw \<noteq> ''maxItems'' \<Longrightarrow> never_emits kw (kw_maxItems n)"
  "kw \<noteq> ''maxLength'' \<Longrightarrow> never_emits kw (kw_maxLength n)"
  "kw \<noteq> ''enum'' \<Longrightarrow> never_emits kw (kw_enum allowed)"
  "kw \<noteq> ''pattern'' \<Longrightarrow> never_emits kw (kw_pattern r)"
  "kw \<noteq> ''format'' \<Longrightarrow> never_emits kw (kw_format pf name)"
  "kw \<noteq> ''minimum'' \<Longrightarrow> never_emits kw (kw_minimum m)"
  "kw \<noteq> ''maximum'' \<Longrightarrow> never_emits kw (kw_maximum m)"
  "kw \<noteq> ''multipleOf'' \<Longrightarrow> never_emits kw (kw_multipleOf m)"
  by (auto simp: never_emits_def kw_type_def kw_required_def kw_minItems_def kw_maxItems_def
      kw_maxLength_def kw_enum_def kw_pattern_def kw_format_def kw_minimum_def kw_maximum_def
      kw_multipleOf_def split: json.splits if_splits)

lemmas never_emits_intros =
  never_emits_schema never_emits_object never_emits_properties never_emits_patternProperties
  never_emits_additional_accepted never_emits_additional_each never_emits_items

lemma never_emits_with_keyword: "never_emits kw c \<Longrightarrow> with_keyword kw (c path v) = []"
  by (auto simp: never_emits_def with_keyword_def filter_empty_conv)

lemma never_emits_anything: "never_emits kw anything"
  by (simp add: anything_def never_emits_def)

lemma never_emits_array_of_strings: "kw \<noteq> ''type'' \<Longrightarrow> never_emits kw array_of_strings"
  unfolding array_of_strings_def
  by (intro never_emits_schema) (auto intro!: never_emits_items never_emits_schema never_emits_leaf)

lemma never_additional_v1_2_0: "never_emits ''additionalProperties'' (schema_v1_2_0 pf)"
  unfolding schema_v1_2_0_def entryObject_v1_2_0_def metaObject_v1_2_0_def
  by (auto intro!: never_emits_intros never_emits_leaf never_emits_anything)

lemma never_additional_v1_1_1: "never_emits ''additionalProperties'' (schema_v1_1_1 pf)"
  unfolding schema_v1_1_1_def entryObject_v1_1_1_def metaObject_v1_1_1_def moodObject_v1_1_1_def
    entitiesObject_v1_1_1_def relationObject_def signatureObject_def
  by (auto intro!: never_emits_intros never_emits_leaf never_emits_anything
      never_emits_array_of_strings)

lemma never_additional_v1_1_0: "never_emits ''additionalProperties'' (schema_v1_1_0 pf)"
  unfolding schema_v1_1_0_def entry_v1_1_0_def loadSchema_mood_def
    loadSchema_entities_def loadSchema_relation_def loadSchema_signature_def
  by (auto intro!: never_emits_intros never_emits_leaf never_emits_anything
      never_emits_array_of_strings)

lemma child_root: "child [] (escape_token ''entries'') = ''/entries''"
  "child [] (escape_token ''meta'') = ''/meta''"
  by (simp_all add: child_def escape_token_def)

lemma entry_additional_v1_0_0:
  assumes "(k, x) \<in> set e" and "k \<notin> set entry_fields_v1_0_0" and "\<not> has_x_prefix k"
  shows "SchemaError p ''additionalProperties'' k \<in> set (entryObject_v1_0_0 pf p (JObj e))"
proof -
  have add: "is_additional entry_fields_v1_0_0 [x_prefix] k"
    using assms(2,3) by (simp add: is_additional_def x_prefix_test)
  have *: "is_additional (map fst props) (map fst pats) k \<Longrightarrow>
      SchemaError p ''additionalProperties'' k
        \<in> set (object_properties props pats Rejected p (JObj e))" for props pats
    using assms(1) by (rule in_object_rejected)
  from add show ?thesis
    unfolding entry_fields_v1_0_0_def entryObject_v1_0_0_def by (simp add: *)
qed

lemma meta_additional_v1_0_0:
  assumes "(k, x) \<in> set m" and "k \<notin> set meta_fields_v1_0_0" and "\<not> has_x_prefix k"
  shows "SchemaError p ''additionalProperties'' k \<in> set (metaObject_v1_0_0 p (JObj m))"
proof -
  have add: "is_additional meta_fields_v1_0_0 [x_prefix] k"
    using assms(2,3) by (simp add: is_additional_def x_prefix_test)
  have *: "is_additional (map fst props) (map fst pats) k \<Longrightarrow>
      SchemaError p ''additionalProperties'' k
        \<in> set (object_properties props pats Rejected p (JObj m))" for props pats
    using assms(1) by (rule in_object_rejected)
  from add show ?thesis
    unfolding meta_fields_v1_0_0_def metaObject_v1_0_0_def by (simp add: *)
qed

lemma in_v1_0_0_entries:
  assumes "map_of d ''entries'' = Some (JArr es)" and "i < length es"
    and "e \<in> set (entryObject_v1_0_0 pf (''/entries/'' @ show_nat i) (es ! i))"
  shows "e \<in> set (schema_v1_0_0 pf [] (JObj d))"
proof -
  from assms(2,3) have "e \<in> set (kw_items (entryObject_v1_0_0 pf) ''/entries'' (JArr es))"
    by (intro in_items) (simp_all add: child_def)
  then have "e \<in> set (schema [kw_type TArray, kw_minItems 1, kw_items (entryObject_v1_0_0 pf)]
      (child [] (escape_token ''entries'')) (JArr es))"
    by (simp add: child_root)
  note step = in_object_properties [where name = "''entries''" and path = "[]"
      and c = "schema [kw_type TArray, kw_minItems 1, kw_items (entryObject_v1_0_0 pf)]",
      OF _ assms(1) this]
  show ?thesis
    unfolding schema_v1_0_0_def
    apply (simp only: schema_Cons set_append)
    apply (rule UnI2, rule UnI2, rule UnI1)
    apply (rule step)
    apply simp
    done
qed

lemma in_v1_0_0_meta:
  assumes "map_of d ''meta'' = Some m"
    and "e \<in> set (metaObject_v1_0_0 ''/meta'' m)"
  shows "e \<in> set (schema_v1_0_0 pf [] (JObj d))"
proof -
  from assms(2) have "e \<in> set (metaObject_v1_0_0 (child [] (escape_token ''meta'')) m)"
    by (simp add: child_root)
  note step = in_object_properties [where name = "''meta''" and path = "[]"
      and c = metaObject_v1_0_0, OF _ assms(1) this]
  show ?thesis
    unfolding schema_v1_0_0_def
    apply (simp only: schema_Cons set_append)
    apply (rule UnI2, rule UnI2, rule UnI1)
    apply (rule step)
    apply simp
    done
qed

lemma unknown_entry_fieldD:
  assumes "unknown_entry_field d i k"
  shows "\<exists>es e x. map_of d ''entries'' = Some (JArr es) \<and> i < length es \<and> es ! i = JObj e \<and>
     (k, x) \<in> set e \<and> k \<notin> set entry_fields_v1_0_0 \<and> \<not> has_x_prefix k"
proof -
  from assms obtain es where es: "map_of d ''entries'' = Some (JArr es)"
    unfolding unknown_entry_field_def by (simp split: option.splits json.splits)
  with assms have i: "i < length es"
    unfolding unknown_entry_field_def by simp
  from assms es obtain e where e: "es ! i = JObj e"
    unfolding unknown_entry_field_def by (cases "es ! i") simp_all
  with assms es have k: "map_of e k \<noteq> None" "k \<notin> set entry_fields_v1_0_0" "\<not> has_x_prefix k"
    unfolding unknown_entry_field_def by simp_all
  from k(1) obtain x where "(k, x) \<in> set e" by (auto dest: map_of_SomeD)
  with es i e k show ?thesis by blast
qed

lemma unknown_meta_fieldD:
  assumes "unknown_meta_field d k"
  shows "\<exists>m x. map_of d ''meta'' = Some (JObj m) \<and> (k, x) \<in> set m \<and>
     k \<notin> set meta_fields_v1_0_0 \<and> \<not> has_x_prefix k"
proof -
  from assms obtain m where m: "map_of d ''meta'' = Some (JObj m)"
    unfolding unknown_meta_field_def by (simp split: option.splits json.splits)
  with assms have k: "map_of m k \<noteq> None" "k \<notin> set meta_fields_v1_0_0" "\<not> has_x_prefix k"
    unfolding unknown_meta_field_def by simp_all
  from k(1) obtain x where "(k, x) \<in> set m" by (auto dest: map_of_SomeD)
  with m k show ?thesis by blast
qed

lemma with_keyword_nonempty:
  "e \<in> set es \<Longrightarrow> err_keyword e = kw \<Longrightarrow> with_keyword kw es \<noteq> []"
  by (auto simp: with_keyword_def filter_empty_conv)

lemma ajv_default_failed: "e \<in> set (c [] v) \<Longrightarrow> ajv_default c v = Failed [hd (c [] v)]"
  by (cases "c [] v") (auto simp: ajv_default_def)

lemma unknown_field_error:
  assumes "unknown_entry_field d i k \<or> unknown_meta_field d k"
  obtains e where "e \<in> set (schema_v1_0_0 pf [] (JObj d))"
    and "err_keyword e = ''additionalProperties''"
  using assms
proof
  assume "unknown_entry_field d i k"
  from unknown_entry_fieldD [OF this]
  obtain es e x where es: "map_of d ''entries'' = Some (JArr es)" and i: "i < length es"
    and e: "es ! i = JObj e" and x: "(k, x) \<in> set e"
    and k: "k \<notin> set entry_fields_v1_0_0" "\<not> has_x_prefix k"
    by blast
  have "SchemaError (''/entries/'' @ show_nat i) ''additionalProperties'' k
      \<in> set (entryObject_v1_0_0 pf (''/entries/'' @ show_nat i) (JObj e))"
    using x k by (rule entry_additional_v1_0_0)
  then have "SchemaError (''/entries/'' @ show_nat i) ''additionalProperties'' k
      \<in> set (entryObject_v1_0_0 pf (''/entries/'' @ show_nat i) (es ! i))"
    by (simp only: e)
  from in_v1_0_0_entries [OF es i this] that show thesis
    by simp
next
  assume "unknown_meta_field d k"
  from unknown_meta_fieldD [OF this]
  obtain m x where m: "map_of d ''meta'' = Some (JObj m)" and x: "(k, x) \<in> set m"
    and k: "k \<notin> set meta_fields_v1_0_0" "\<not> has_x_prefix k"
    by blast
  from in_v1_0_0_meta [where pf = pf, OF m meta_additional_v1_0_0 [OF x k]] that show thesis
    by simp
qed

text \<open>
  C7. A document with a field in an entry or in \<open>meta\<close> that the schema of version 1.0.0
  does not name and that has no \<open>x_\<close> prefix fails validation against the schema of
  version 1.0.0, by both command-line validators, with an error of the keyword
  \<open>additionalProperties\<close>. The schemas of the versions 1.1.0, 1.1.1 and 1.2.0 report no
  error of that keyword, on any value at any path: there such fields are accepted. The schema
  of version 1.1.0 is the one that the validator class of that version builds.
\<close>

theorem unknown_fields_rejected_by_v1_0_0_only:
  assumes "unknown_entry_field d i k \<or> unknown_meta_field d k"
  shows "failed (validateNALTProtocol pf ''v1.0.0'' (JObj d)) \<and>
         validatePersonalProtocol pf (JObj d) \<noteq> Successful \<and>
         with_keyword ''additionalProperties'' (schema_v1_0_0 pf [] (JObj d)) \<noteq> [] \<and>
         with_keyword ''additionalProperties'' (schema_v1_1_0 pf path v) = [] \<and>
         with_keyword ''additionalProperties'' (schema_v1_1_1 pf path v) = [] \<and>
         with_keyword ''additionalProperties'' (schema_v1_2_0 pf path v) = []"
proof -
  from unknown_field_error [OF assms, of pf]
  obtain e where err: "e \<in> set (schema_v1_0_0 pf [] (JObj d))"
    and kw: "err_keyword e = ''additionalProperties''"
    by blast
  from err kw have 1: "with_keyword ''additionalProperties'' (schema_v1_0_0 pf [] (JObj d)) \<noteq> []"
    by (rule with_keyword_nonempty)
  from ajv_default_failed [where c = "schema_v1_0_0 pf", OF err]
  have 2: "failed (validateNALTProtocol pf ''v1.0.0'' (JObj d))"
    and 3: "validatePersonalProtocol pf (JObj d) \<noteq> Successful"
    by (simp_all add: failed_def validateNALTProtocol_def schema_file_def
        validatePersonalProtocol_def)
  from 1 2 3 show ?thesis
    by (simp add: never_emits_with_keyword never_additional_v1_1_0 never_additional_v1_1_1
        never_additional_v1_2_0)
qed

theorem unknown_fields_rejected_by_v1_0_0_only_witness:
  "(unknown_entry_field (unknown_field_example ''1.0.0'' ''plain_text'') 0 ''priority'' \<or>
    unknown_meta_field (unknown_field_example ''1.0.0'' ''plain_text'') ''priority'') \<and>
   failed (validateNALTProtocol example_platform ''v1.0.0''
     (JObj (unknown_field_example ''1.0.0'' ''plain_text''))) \<and>
   validatePersonalProtocol example_platform
     (JObj (unknown_field_example ''1.0.0'' ''plain_text'')) \<noteq> Successful \<and>
   with_keyword ''additionalProperties''
     (schema_v1_0_0 example_platform [] (JObj (unknown_field_example ''1.0.0'' ''plain_text''))) \<noteq> [] \<and>
   with_keyword ''additionalProperties''
     (schema_v1_1_0 example_platform [] (JObj (unknown_field_example ''1.1.1'' ''text/plain''))) = [] \<and>
   with_keyword ''additionalProperties''
     (schema_v1_1_1 example_platform [] (JObj (unknown_field_example ''1.1.1'' ''text/plain''))) = [] \<and>
   with_keyword ''additionalProperties''
     (schema_v1_2_0 example_platform [] (JObj (unknown_field_example ''1.1.1'' ''text/plain''))) = [] \<and>
   validateNALTProtocol example_platform ''v1.1.1''
     (JObj (unknown_field_example ''1.1.1'' ''text/plain'')) = Some Successful \<and>
   validateNALTProtocol example_platform ''v1.2.0''
     (JObj (unknown_field_example ''1.2.0'' ''text/plain'')) = Some Successful"
proof -
  have unknown:
    "unknown_entry_field (unknown_field_example ''1.0.0'' ''plain_text'') 0 ''priority'' \<or>
     unknown_meta_field (unknown_field_example ''1.0.0'' ''plain_text'') ''priority''"
    by (simp add: unknown_entry_field_def unknown_field_example_def entry_fields_v1_0_0_def
        has_x_prefix_def)
  have later:
    "validateNALTProtocol example_platform ''v1.1.1''
       (JObj (unknown_field_example ''1.1.1'' ''text/plain'')) = Some Successful"
    "validateNALTProtocol example_platform ''v1.2.0''
       (JObj (unknown_field_example ''1.2.0'' ''text/plain'')) = Some Successful"
    by code_simp+
  from unknown_fields_rejected_by_v1_0_0_only [OF unknown, of example_platform "[]"
      "JObj (unknown_field_example ''1.1.1'' ''text/plain'')"] unknown later
  show ?thesis
    by (simp only: simp_thms)
qed


subsection \<open>What a value without errors looks like\<close>










subsection \<open>The precision of a mood's intensity\<close>





















lemma entry_ok_object: "entry_ok v \<Longrightarrow> is_object v"
  by (cases v) (simp_all add: entry_ok_def)















end
